theory Spec2Isabelle
  imports Main
begin

section \<open>Values exchanged with the outside: JSON, Python strings, exceptions\<close>

text \<open>
  The service of \<^verbatim>\<open>app.py\<close> receives JSON request bodies, reads JSON from the drug-label
  database and from the language model, and answers with JSON. A decoded JSON document is
  a Python value: \<^verbatim>\<open>None\<close>, a bool, a number, a \<^verbatim>\<open>str\<close>, a \<^verbatim>\<open>list\<close> or a \<^verbatim>\<open>dict\<close> with string
  keys. Numbers are modelled as integers; the code only ever tests a number for being
  zero (truthiness), so a float behaves like an integer wherever it can occur.

  A Python \<^verbatim>\<open>str\<close> is a \<^typ>\<open>string\<close>; a code point above 127 stands as its UTF-8 bytes.
  A \<^verbatim>\<open>dict\<close> is an association list read with \<^const>\<open>map_of\<close>.
\<close>

datatype json =
    JNull
  | JBool bool
  | JInt int
  | JStr string
  | JArr "json list"
  | JObj "(string \<times> json) list"

datatype exn =
    AttributeError | TypeError | KeyError | IndexError
  | UnicodeEncodeError | OSError | ValueError

text \<open>Python's truth value of a decoded JSON value (\<^verbatim>\<open>if not x\<close>).\<close>

fun truthy :: "json \<Rightarrow> bool" where
  "truthy JNull = False"
| "truthy (JBool b) = b"
| "truthy (JInt n) = (n \<noteq> 0)"
| "truthy (JStr s) = (s \<noteq> [])"
| "truthy (JArr xs) = (xs \<noteq> [])"
| "truthy (JObj kvs) = (kvs \<noteq> [])"

text \<open>\<^verbatim>\<open>d.get(key, default)\<close> and \<^verbatim>\<open>d.get(key)\<close> on a dict.\<close>

definition dict_get :: "(string \<times> json) list \<Rightarrow> string \<Rightarrow> json \<Rightarrow> json" where
  "dict_get d key dflt = (case map_of d key of None \<Rightarrow> dflt | Some v \<Rightarrow> v)"

definition dict_get_none :: "(string \<times> json) list \<Rightarrow> string \<Rightarrow> json" where
  "dict_get_none d key = dict_get d key JNull"

text \<open>\<^verbatim>\<open>needle in haystack\<close> on two strings.\<close>

fun str_contains :: "string \<Rightarrow> string \<Rightarrow> bool" where
  "str_contains needle [] = (needle = [])"
| "str_contains needle (c # cs) = (needle = take (length needle) (c # cs) \<or> str_contains needle cs)"

text \<open>
  The characters of a \<^verbatim>\<open>str\<close>, each as a one-character \<^verbatim>\<open>str\<close>: a UTF-8 continuation
  byte (\<^verbatim>\<open>0x80..0xBF\<close>) belongs to the character that the preceding byte started.
\<close>

definition is_continuation :: "char \<Rightarrow> bool" where
  "is_continuation c = (128 \<le> (of_char c :: nat) \<and> (of_char c :: nat) < 192)"

fun str_chars :: "string \<Rightarrow> string list" where
  "str_chars [] = []"
| "str_chars (c # cs) =
     (case str_chars cs of
        [] \<Rightarrow> [[c]]
      | g # gs \<Rightarrow> (case g of
                    [] \<Rightarrow> [c] # gs
                  | b # _ \<Rightarrow> if is_continuation b then (c # g) # gs else [c] # g # gs))"

text \<open>\<^verbatim>\<open>sep.join(parts)\<close> on a list of strings.\<close>

fun join :: "string \<Rightarrow> string list \<Rightarrow> string" where
  "join sep [] = []"
| "join sep [x] = x"
| "join sep (x # y # ys) = x @ sep @ join sep (y # ys)"

text \<open>The strings of a list whose elements are all \<^verbatim>\<open>str\<close>; \<^const>\<open>None\<close> if one is not.\<close>

fun strs_of :: "json list \<Rightarrow> string list option" where
  "strs_of [] = Some []"
| "strs_of (JStr s # xs) = map_option ((#) s) (strs_of xs)"
| "strs_of (_ # xs) = None"

text \<open>
  \<^verbatim>\<open>sep.join(v)\<close> on an arbitrary decoded value: a list must hold only strings, a \<^verbatim>\<open>str\<close>
  is iterated character by character, a \<^verbatim>\<open>dict\<close> is iterated over its keys, and
  \<^verbatim>\<open>None\<close>, bools and numbers are not iterable (\<^verbatim>\<open>TypeError\<close>).
\<close>

fun py_join :: "string \<Rightarrow> json \<Rightarrow> exn + string" where
  "py_join sep (JArr xs) =
     (case strs_of xs of None \<Rightarrow> Inl TypeError | Some ss \<Rightarrow> Inr (join sep ss))"
| "py_join sep (JStr s) = Inr (join sep (str_chars s))"
| "py_join sep (JObj kvs) = Inr (join sep (map fst kvs))"
| "py_join sep _ = Inl TypeError"

text \<open>\<^verbatim>\<open>v[0]\<close> on an arbitrary decoded value.\<close>

fun subscript0 :: "json \<Rightarrow> exn + json" where
  "subscript0 (JArr []) = Inl IndexError"
| "subscript0 (JArr (x # xs)) = Inr x"
| "subscript0 (JStr s) =
     (case str_chars s of [] \<Rightarrow> Inl IndexError | g # _ \<Rightarrow> Inr (JStr g))"
| "subscript0 (JObj kvs) = Inl KeyError"
| "subscript0 _ = Inl TypeError"

text \<open>\<^verbatim>\<open>key in v\<close> for a string key on an arbitrary decoded value.\<close>

fun py_in :: "string \<Rightarrow> json \<Rightarrow> exn + bool" where
  "py_in key (JObj kvs) = Inr (key \<in> set (map fst kvs))"
| "py_in key (JArr xs) = Inr (JStr key \<in> set xs)"
| "py_in key (JStr s) = Inr (str_contains key s)"
| "py_in key _ = Inl TypeError"

text \<open>\<^verbatim>\<open>v[key]\<close> for a string key on an arbitrary decoded value.\<close>

fun subscript_key :: "json \<Rightarrow> string \<Rightarrow> exn + json" where
  "subscript_key (JObj kvs) key =
     (case map_of kvs key of None \<Rightarrow> Inl KeyError | Some v \<Rightarrow> Inr v)"
| "subscript_key _ key = Inl TypeError"

text \<open>
  Sequencing of steps that may raise: the first exception ends the computation, as it
  does in Python.
\<close>

definition raising :: "exn + 'a \<Rightarrow> ('a \<Rightarrow> exn + 'b) \<Rightarrow> exn + 'b" where
  "raising m f = (case m of Inl x \<Rightarrow> Inl x | Inr v \<Rightarrow> f v)"

section \<open>The environment: external services, library functions, observable effects\<close>

text \<open>
  \<^verbatim>\<open>requests.get(url, timeout=10)\<close>, \<^verbatim>\<open>raise_for_status()\<close> and \<^verbatim>\<open>response.json()\<close>
  either raise a \<^verbatim>\<open>RequestException\<close> (with its message) or deliver the decoded body.
  \<^verbatim>\<open>model.generate_content(prompt)\<close> either raises an exception (with its message
  \<^verbatim>\<open>str(e)\<close>) or returns a response object, whose property \<^verbatim>\<open>text\<close> either raises (with
  its message) or is the response text.
\<close>

datatype http_outcome = RequestException string | Body json

datatype llm_response = TextRaises string | Text string

datatype gen_outcome = GenRaises string | GenResponse llm_response

text \<open>
  The services may answer differently each time they are called: an answer depends on the
  number of external calls made before it. The library functions are those of the Python
  runtime that the code calls and this development does not define: \<^verbatim>\<open>str.upper\<close>,
  \<^verbatim>\<open>str.lower\<close>, \<^verbatim>\<open>json.loads\<close> (which raises with a message, or returns the decoded
  value) and \<^verbatim>\<open>str()\<close> of a value that is not a \<^verbatim>\<open>str\<close>. \<^verbatim>\<open>print(text)\<close> writes to the
  standard output of the process, which may refuse the text (it cannot encode it, or it
  is closed): \<open>print_raises\<close> gives the exception that \<^verbatim>\<open>print\<close> then raises.
\<close>

record env =
  requests_get :: "nat \<Rightarrow> string \<Rightarrow> http_outcome"
  generate_content :: "nat \<Rightarrow> string \<Rightarrow> gen_outcome"
  json_loads :: "string \<Rightarrow> string + json"
  str_upper :: "string \<Rightarrow> string"
  str_lower :: "string \<Rightarrow> string"
  py_str :: "json \<Rightarrow> string"
  print_raises :: "string \<Rightarrow> exn option"

text \<open>
  The state that the code changes outside itself: how many external calls were made, and
  the delays passed to \<^verbatim>\<open>time.sleep\<close>, oldest first.
\<close>

record world =
  calls :: nat
  slept :: "nat list"

definition tick :: "world \<Rightarrow> world" where
  "tick w = w\<lparr>calls := Suc (calls w)\<rparr>"

definition sleep :: "nat \<Rightarrow> world \<Rightarrow> world" where
  "sleep delay w = w\<lparr>slept := slept w @ [delay]\<rparr>"

text \<open>
  \<^verbatim>\<open>print(text)\<close> followed by the rest of the computation: an exception of \<^verbatim>\<open>print\<close> ends
  it. What is printed is not kept.
\<close>

definition printing :: "env \<Rightarrow> string \<Rightarrow> exn + 'a \<Rightarrow> exn + 'a" where
  "printing e text rest = (case print_raises e text of Some x \<Rightarrow> Inl x | None \<Rightarrow> rest)"

text \<open>\<^verbatim>\<open>str(n)\<close> of a number counted by the code.\<close>

definition str_of_nat :: "env \<Rightarrow> nat \<Rightarrow> string" where
  "str_of_nat e n = py_str e (JInt (int n))"

text \<open>An f-string field \<^verbatim>\<open>{v}\<close>: a \<^verbatim>\<open>str\<close> is inserted as it is, anything else through \<^verbatim>\<open>str()\<close>.\<close>

definition format_value :: "env \<Rightarrow> json \<Rightarrow> string" where
  "format_value e v = (case v of JStr s \<Rightarrow> s | _ \<Rightarrow> py_str e v)"

definition nl :: string where
  "nl = [CHR 0x0A]"

definition dquote :: string where
  "dquote = [CHR 0x22]"

definition squote :: string where
  "squote = [CHR 0x27]"

section \<open>Configuration data\<close>

record drug_def =
  dclass :: string
  dname :: string

definition COMMON_BP_DRUGS :: "drug_def list" where
  "COMMON_BP_DRUGS =
     [\<lparr>dclass = ''ACE Inhibitor'', dname = ''Lisinopril''\<rparr>,
      \<lparr>dclass = ''ARB'', dname = ''Losartan''\<rparr>,
      \<lparr>dclass = ''Calcium Channel Blocker'', dname = ''Amlodipine''\<rparr>,
      \<lparr>dclass = ''Beta-Blocker'', dname = ''Metoprolol''\<rparr>,
      \<lparr>dclass = ''Diuretic'', dname = ''Hydrochlorothiazide''\<rparr>]"

text \<open>The alert type \<^verbatim>\<open>"\<dots> ERROR"\<close>: the red-circle sign U+1F534 in UTF-8, a space, \<^verbatim>\<open>ERROR\<close>.\<close>

definition ERROR_TYPE :: string where
  "ERROR_TYPE = [CHR 0xF0, CHR 0x9F, CHR 0x94, CHR 0xB4] @ '' ERROR''"

definition error_alert :: "string \<Rightarrow> json" where
  "error_alert finding = JObj [(''type'', JStr ERROR_TYPE), (''finding'', JStr finding)]"

section \<open>Drug Data Fetcher\<close>

record drug_data =
  brandName :: string
  genericName :: string
  contraindications :: string
  warnings_and_precautions :: string
  drugInteractions :: string
  adverseReactions :: string

text \<open>The \<^verbatim>\<open>dict\<close> that \<^verbatim>\<open>fetch_drug_data\<close> returns, as the JSON object it is serialised to.\<close>

definition drug_data_json :: "drug_data \<Rightarrow> json" where
  "drug_data_json d =
     JObj [(''brandName'', JStr (brandName d)),
           (''genericName'', JStr (genericName d)),
           (''contraindications'', JStr (contraindications d)),
           (''warnings_and_precautions'', JStr (warnings_and_precautions d)),
           (''drugInteractions'', JStr (drugInteractions d)),
           (''adverseReactions'', JStr (adverseReactions d))]"

definition fda_url :: "env \<Rightarrow> string \<Rightarrow> string" where
  "fda_url e drug_name =
     (let search_field =
            ''(openfda.generic_name.exact:'' @ dquote @ str_upper e drug_name @ dquote
            @ '' OR openfda.brand_name.exact:'' @ dquote @ str_upper e drug_name @ dquote @ '')''
      in ''https://api.fda.gov/drug/label.json?search='' @ search_field @ ''&limit=1'')"

definition NO_INFORMATION :: string where
  "NO_INFORMATION = ''No information listed.''"

text \<open>
  \<^verbatim>\<open>get_section_text(section_key)\<close>, the closure over the label record \<^verbatim>\<open>drug\<close>:
  \<^verbatim>\<open>" ".join\<close> raises \<^verbatim>\<open>TypeError\<close> on a list element that is not a \<^verbatim>\<open>str\<close>.
\<close>

definition get_section_text :: "env \<Rightarrow> (string \<times> json) list \<Rightarrow> string \<Rightarrow> exn + string" where
  "get_section_text e drug section_key =
     (case dict_get_none drug section_key of
        JArr section_data \<Rightarrow>
          if section_data \<noteq> []
          then raising (py_join '' '' (JArr section_data)) (\<lambda>joined. Inr (str_lower e joined))
          else Inr NO_INFORMATION
      | _ \<Rightarrow> Inr NO_INFORMATION)"

text \<open>\<^verbatim>\<open>drug.get("openfda", {}).get(key, default)\<close>: the inner \<^verbatim>\<open>get\<close> needs a \<^verbatim>\<open>dict\<close>.\<close>

definition openfda_get :: "(string \<times> json) list \<Rightarrow> string \<Rightarrow> json \<Rightarrow> exn + json" where
  "openfda_get drug key dflt =
     (case dict_get drug ''openfda'' (JObj []) of
        JObj openfda \<Rightarrow> Inr (dict_get openfda key dflt)
      | _ \<Rightarrow> Inl AttributeError)"

text \<open>
  The \<^verbatim>\<open>dict\<close> literal returned by \<^verbatim>\<open>fetch_drug_data\<close>, its entries evaluated in the order
  they are written; \<^verbatim>\<open>drug.get\<close> needs \<^verbatim>\<open>drug\<close> to be a \<^verbatim>\<open>dict\<close>.
\<close>

definition label_record :: "env \<Rightarrow> string \<Rightarrow> json \<Rightarrow> exn + drug_data" where
  "label_record e drug_name drug_json =
     (case drug_json of
        JObj drug \<Rightarrow>
          raising (openfda_get drug ''brand_name'' (JArr [JStr ''N/A''])) (\<lambda>bn.
          raising (py_join '', '' bn) (\<lambda>brand.
          raising (openfda_get drug ''generic_name'' (JArr [JStr drug_name])) (\<lambda>gn.
          raising (py_join '', '' gn) (\<lambda>generic.
          raising (get_section_text e drug ''contraindications'') (\<lambda>c.
          raising (get_section_text e drug ''warnings_and_precautions'') (\<lambda>wp.
          raising (get_section_text e drug ''drug_interactions'') (\<lambda>di.
          raising (get_section_text e drug ''adverse_reactions'') (\<lambda>ar.
            Inr \<lparr>brandName = brand, genericName = generic, contraindications = c,
                 warnings_and_precautions = wp, drugInteractions = di,
                 adverseReactions = ar\<rparr>))))))))
      | _ \<Rightarrow> Inl AttributeError)"

text \<open>
  What \<^verbatim>\<open>fetch_drug_data\<close> does with the outcome of the HTTP call. \<^verbatim>\<open>Inr None\<close> is the
  returned \<^verbatim>\<open>None\<close>; \<^verbatim>\<open>Inl\<close> is an exception that is not a \<^verbatim>\<open>RequestException\<close> and so
  leaves the function. The two \<^verbatim>\<open>print\<close> calls come before the two \<^verbatim>\<open>return None\<close>.
\<close>

definition handle_outcome :: "env \<Rightarrow> string \<Rightarrow> http_outcome \<Rightarrow> exn + drug_data option" where
  "handle_outcome e drug_name outcome =
     (case outcome of
        RequestException msg \<Rightarrow>
          printing e (''Error fetching data for '' @ drug_name @ '': '' @ msg) (Inr None)
      | Body (JObj data) \<Rightarrow>
          if truthy (dict_get_none data ''error'') \<or> \<not> truthy (dict_get_none data ''results'')
          then printing e (''No results found for '' @ drug_name) (Inr None)
          else (case subscript0 (dict_get_none data ''results'') of
                  Inl x \<Rightarrow> Inl x
                | Inr drug \<Rightarrow> map_sum id Some (label_record e drug_name drug))
      | Body _ \<Rightarrow> Inl AttributeError)"

definition fetch_drug_data :: "env \<Rightarrow> string \<Rightarrow> world \<Rightarrow> (exn + drug_data option) \<times> world" where
  "fetch_drug_data e drug_name w =
     (handle_outcome e drug_name (requests_get e (calls w) (fda_url e drug_name)), tick w)"

section \<open>Conflict Analyzer\<close>

definition user_prompt :: "string \<Rightarrow> drug_data \<Rightarrow> string" where
  "user_prompt patient_profile_text d =
     nl @ ''    PATIENT PROFILE:'' @ nl
     @ ''    '' @ patient_profile_text @ nl
     @ nl
     @ ''    DRUG DATA FOR: '' @ genericName d @ nl
     @ ''    ---'' @ nl
     @ ''    CONTRAINDICATIONS:'' @ nl
     @ ''    '' @ contraindications d @ nl
     @ ''    ---'' @ nl
     @ ''    WARNINGS AND PRECAUTIONS:'' @ nl
     @ ''    '' @ warnings_and_precautions d @ nl
     @ ''    ---'' @ nl
     @ ''    DRUG INTERACTIONS:'' @ nl
     @ ''    '' @ drugInteractions d @ nl
     @ ''    ---'' @ nl
     @ ''    ADVERSE REACTIONS:'' @ nl
     @ ''    '' @ adverseReactions d @ nl
     @ ''    ---'' @ nl
     @ ''    ANALYZE and return all conflicts. If no conflicts are found, return a single ''
     @ dquote @ ''INFO'' @ dquote @ '' alert.'' @ nl
     @ ''    ''"

definition max_retries :: nat where
  "max_retries = 3"

text \<open>
  The \<^verbatim>\<open>try\<close> block of one attempt, made when \<open>k\<close> external calls have been made:
  \<^verbatim>\<open>Inr\<close> the decoded alerts, \<^verbatim>\<open>Inl\<close> the message \<^verbatim>\<open>str(e)\<close> of the exception caught,
  which comes from \<^verbatim>\<open>generate_content\<close>, from \<^verbatim>\<open>response.text\<close> or from \<^verbatim>\<open>json.loads\<close>.
\<close>

definition try_generate :: "env \<Rightarrow> string \<Rightarrow> nat \<Rightarrow> string + json" where
  "try_generate e prompt k =
     (case generate_content e k prompt of
        GenRaises msg \<Rightarrow> Inl msg
      | GenResponse (TextRaises msg) \<Rightarrow> Inl msg
      | GenResponse (Text text) \<Rightarrow> json_loads e text)"

text \<open>
  The local variable \<^verbatim>\<open>response\<close> after the \<^verbatim>\<open>try\<close> block of an attempt: it keeps the
  response object of an earlier attempt when \<^verbatim>\<open>generate_content\<close> raises in this one, and
  is not bound before the first response.
\<close>

definition bound_response :: "llm_response option \<Rightarrow> gen_outcome \<Rightarrow> llm_response option" where
  "bound_response response outcome =
     (case outcome of GenRaises msg \<Rightarrow> response | GenResponse r \<Rightarrow> Some r)"

text \<open>
  \<^verbatim>\<open>raw_response\<close> as the handler computes it: \<^verbatim>\<open>"response" in locals()\<close>, then
  \<^verbatim>\<open>response.text\<close> under its own \<^verbatim>\<open>try\<close>.
\<close>

definition raw_response :: "llm_response option \<Rightarrow> string" where
  "raw_response response =
     (case response of
        None \<Rightarrow> ''No response object''
      | Some (Text text) \<Rightarrow> text
      | Some (TextRaises msg) \<Rightarrow> ''Could not get response.text'')"

definition retryable :: "string \<Rightarrow> bool" where
  "retryable msg = (str_contains ''429'' msg \<or> str_contains ''503'' msg)"

text \<open>
  The loop \<^verbatim>\<open>for attempt in range(max_retries)\<close> at the iteration \<open>attempt\<close>, with \<open>n\<close>
  iterations left, the local \<^verbatim>\<open>response\<close> and the current \<^verbatim>\<open>delay\<close>; the line after the
  loop is the case of no iteration left. The handler \<^verbatim>\<open>except Exception as e\<close> prints
  twice, and a third time before it sleeps; none of these \<^verbatim>\<open>print\<close> calls is inside a
  \<^verbatim>\<open>try\<close>, so an exception of theirs leaves \<^verbatim>\<open>analyze_with_llm\<close> (\<^verbatim>\<open>Inl\<close>).
\<close>

fun retry_loop ::
  "env \<Rightarrow> string \<Rightarrow> nat \<Rightarrow> llm_response option \<Rightarrow> nat \<Rightarrow> nat \<Rightarrow> world \<Rightarrow> (exn + json) \<times> world" where
  "retry_loop e prompt attempt response 0 delay w =
     (Inr (JArr [error_alert ''Could not analyze drug after multiple retries.'']), w)"
| "retry_loop e prompt attempt response (Suc n) delay w =
     (let response1 = bound_response response (generate_content e (calls w) prompt) in
      case try_generate e prompt (calls w) of
        Inr alerts \<Rightarrow> (Inr alerts, tick w)
      | Inl msg \<Rightarrow>
          (case print_raises e
                  (''Error calling LLM on attempt '' @ str_of_nat e (attempt + 1) @ '': '' @ msg) of
             Some x \<Rightarrow> (Inl x, tick w)
           | None \<Rightarrow>
          (case print_raises e (''LLM Response (raw): '' @ raw_response response1) of
             Some x \<Rightarrow> (Inl x, tick w)
           | None \<Rightarrow>
               if retryable msg
               then (case print_raises e
                            (''Rate limit or server error. Retrying in '' @ str_of_nat e delay
                             @ '' seconds...'') of
                       Some x \<Rightarrow> (Inl x, tick w)
                     | None \<Rightarrow>
                         retry_loop e prompt (attempt + 1) response1 n (delay * 2)
                           (sleep delay (tick w)))
               else (Inr (JArr [error_alert (''Could not analyze drug: '' @ msg)]), tick w))))"

text \<open>The loop from its first iteration, \<^verbatim>\<open>response\<close> not yet bound.\<close>

definition attempts :: "env \<Rightarrow> string \<Rightarrow> nat \<Rightarrow> nat \<Rightarrow> world \<Rightarrow> (exn + json) \<times> world" where
  "attempts e prompt n delay w = retry_loop e prompt 0 None n delay w"

definition analyze_with_llm ::
  "env \<Rightarrow> string \<Rightarrow> drug_data \<Rightarrow> world \<Rightarrow> (exn + json) \<times> world" where
  "analyze_with_llm e patient_profile_text d w =
     attempts e (user_prompt patient_profile_text d) max_retries 1 w"

section \<open>Profile Formatter\<close>

text \<open>\<^verbatim>\<open>x or 'N/A'\<close> on a string.\<close>

definition or_na :: "string \<Rightarrow> string" where
  "or_na s = (if s = [] then ''N/A'' else s)"

text \<open>The f-string of \<^verbatim>\<open>get_profile_text\<close> with its four fields filled in.\<close>

definition profile_block :: "string \<Rightarrow> string \<Rightarrow> string \<Rightarrow> string \<Rightarrow> string" where
  "profile_block vitals notes allergies meds =
     nl @ ''    - Vitals: '' @ vitals @ nl
     @ ''    - Notes/History: '' @ notes @ nl
     @ ''    - Allergies: '' @ allergies @ nl
     @ ''    - Other Medications: '' @ meds @ nl
     @ ''    ''"

definition get_profile_text :: "env \<Rightarrow> json \<Rightarrow> exn + string" where
  "get_profile_text e profile =
     (case profile of
        JObj p \<Rightarrow>
          (let vitals = format_value e (dict_get p ''vitals'' (JStr ''N/A''));
               notes = format_value e (dict_get p ''notes'' (JStr ''N/A''))
           in raising (py_join '', '' (dict_get p ''allergies'' (JArr []))) (\<lambda>allergies.
              raising (py_join '', '' (dict_get p ''meds'' (JArr []))) (\<lambda>meds.
                Inr (profile_block vitals notes (or_na allergies) (or_na meds)))))
      | _ \<Rightarrow> Inl AttributeError)"

section \<open>Report Assembler and the two endpoints\<close>

record DrugReport =
  report_genericName :: string
  report_brandName :: string
  drugClass :: string
  alerts :: json
  fullData :: json

text \<open>
  An HTTP answer: status 200 with its body, 400 with the error text, or 500 for an
  exception that reaches the handler \<^verbatim>\<open>except Exception\<close> of the endpoint. The handler
  prints and answers 500; should its \<^verbatim>\<open>print\<close> raise in turn, the exception leaves the
  view function and the framework answers 500 as well. The status and the first
  exception are kept, its message is not.
\<close>

datatype 'a response = Ok200 'a | BadRequest400 string | ServerError500 exn

text \<open>
  The body of the loop \<^verbatim>\<open>for drug_def in COMMON_BP_DRUGS\<close>: the report appended to
  \<^verbatim>\<open>all_reports\<close> for one catalog entry, or the exception that leaves
  \<^verbatim>\<open>fetch_drug_data\<close> or \<^verbatim>\<open>analyze_with_llm\<close>.
\<close>

definition entry_report :: "env \<Rightarrow> string \<Rightarrow> drug_def \<Rightarrow> world \<Rightarrow> (exn + DrugReport) \<times> world" where
  "entry_report e profile_text drug_def w =
     (let drug_name = dname drug_def in
      case fetch_drug_data e drug_name w of
        (Inl x, w1) \<Rightarrow> (Inl x, w1)
      | (Inr None, w1) \<Rightarrow>
          (Inr \<lparr>report_genericName = drug_name,
                report_brandName = ''N/A'',
                drugClass = dclass drug_def,
                alerts = JArr [error_alert ''Could not fetch drug data from openFDA.''],
                fullData = JObj []\<rparr>, w1)
      | (Inr (Some d), w1) \<Rightarrow>
          (case analyze_with_llm e profile_text d w1 of
             (Inl x, w2) \<Rightarrow> (Inl x, w2)
           | (Inr alerts_json, w2) \<Rightarrow>
               (Inr \<lparr>report_genericName = genericName d,
                     report_brandName = brandName d,
                     drugClass = dclass drug_def,
                     alerts = alerts_json,
                     fullData = drug_data_json d\<rparr>, w2)))"

text \<open>
  The loop over the entries not yet visited, with \<^verbatim>\<open>all_reports\<close> as built so far. An
  exception ends the loop in the endpoint's handler \<^verbatim>\<open>except Exception\<close>.
\<close>

fun report_loop ::
  "env \<Rightarrow> string \<Rightarrow> drug_def list \<Rightarrow> DrugReport list \<Rightarrow> world \<Rightarrow> DrugReport list response \<times> world" where
  "report_loop e profile_text [] all_reports w = (Ok200 all_reports, w)"
| "report_loop e profile_text (drug_def # rest) all_reports w =
     (case entry_report e profile_text drug_def w of
        (Inl x, w1) \<Rightarrow> (ServerError500 x, w1)
      | (Inr report, w1) \<Rightarrow> report_loop e profile_text rest (all_reports @ [report]) w1)"

text \<open>\<^verbatim>\<open>POST /generate-report\<close>; \<open>profile\<close> is \<^verbatim>\<open>request.json\<close>.\<close>

definition generate_report :: "env \<Rightarrow> json \<Rightarrow> world \<Rightarrow> DrugReport list response \<times> world" where
  "generate_report e profile w =
     (if \<not> truthy profile then (BadRequest400 ''No patient profile provided'', w)
      else case get_profile_text e profile of
             Inl x \<Rightarrow> (ServerError500 x, w)
           | Inr profile_text \<Rightarrow> report_loop e profile_text COMMON_BP_DRUGS [] w)"

text \<open>
  The part of \<^verbatim>\<open>check_single_drug\<close> after the request has been taken apart.
  \<^verbatim>\<open>drug_name.upper()\<close> in \<^verbatim>\<open>fetch_drug_data\<close> raises \<^verbatim>\<open>AttributeError\<close> unless the name is
  a \<^verbatim>\<open>str\<close>, before any call is made.
\<close>

definition check_drug :: "env \<Rightarrow> json \<Rightarrow> json \<Rightarrow> world \<Rightarrow> DrugReport response \<times> world" where
  "check_drug e profile drug_name_json w =
     (case get_profile_text e profile of
        Inl x \<Rightarrow> (ServerError500 x, w)
      | Inr profile_text \<Rightarrow>
          (case drug_name_json of
             JStr drug_name \<Rightarrow>
               (case fetch_drug_data e drug_name w of
                  (Inl x, w1) \<Rightarrow> (ServerError500 x, w1)
                | (Inr None, w1) \<Rightarrow>
                    (Ok200 \<lparr>report_genericName = drug_name,
                            report_brandName = ''N/A'',
                            drugClass = ''Custom Search'',
                            alerts = JArr [error_alert
                              (''Could not fetch drug data for '' @ squote @ drug_name @ squote
                               @ ''. Check spelling.'')],
                            fullData = JObj []\<rparr>, w1)
                | (Inr (Some d), w1) \<Rightarrow>
                    (case analyze_with_llm e profile_text d w1 of
                       (Inl x, w2) \<Rightarrow> (ServerError500 x, w2)
                     | (Inr alerts_json, w2) \<Rightarrow>
                         (Ok200 \<lparr>report_genericName = genericName d,
                                 report_brandName = brandName d,
                                 drugClass = ''Custom Search'',
                                 alerts = alerts_json,
                                 fullData = drug_data_json d\<rparr>, w2)))
           | _ \<Rightarrow> (ServerError500 AttributeError, w)))"

text \<open>\<^verbatim>\<open>POST /check-drug\<close>; \<open>data\<close> is \<^verbatim>\<open>request.json\<close>.\<close>

definition MISSING :: string where
  "MISSING = ''Missing profile or drugName''"

definition check_single_drug :: "env \<Rightarrow> json \<Rightarrow> world \<Rightarrow> DrugReport response \<times> world" where
  "check_single_drug e data w =
     (if \<not> truthy data then (BadRequest400 MISSING, w)
      else case py_in ''profile'' data of
        Inl x \<Rightarrow> (ServerError500 x, w)
      | Inr False \<Rightarrow> (BadRequest400 MISSING, w)
      | Inr True \<Rightarrow>
          (case py_in ''drugName'' data of
             Inl x \<Rightarrow> (ServerError500 x, w)
           | Inr False \<Rightarrow> (BadRequest400 MISSING, w)
           | Inr True \<Rightarrow>
               (case subscript_key data ''profile'' of
                  Inl x \<Rightarrow> (ServerError500 x, w)
                | Inr profile \<Rightarrow>
                    (case subscript_key data ''drugName'' of
                       Inl x \<Rightarrow> (ServerError500 x, w)
                     | Inr drug_name \<Rightarrow> check_drug e profile drug_name w))))"

section \<open>Notions used to state the properties\<close>

text \<open>
  A patient profile as the data model has it: a JSON object whose \<^verbatim>\<open>vitals\<close> and \<^verbatim>\<open>notes\<close>,
  where present, are text and whose \<^verbatim>\<open>allergies\<close> and \<^verbatim>\<open>meds\<close>, where present, are lists
  of strings. Any of the four fields may be missing.
\<close>

definition opt_text :: "json option \<Rightarrow> bool" where
  "opt_text v = (case v of None \<Rightarrow> True | Some (JStr s) \<Rightarrow> True | Some _ \<Rightarrow> False)"

definition opt_str_list :: "json option \<Rightarrow> bool" where
  "opt_str_list v = (case v of None \<Rightarrow> True | Some (JArr xs) \<Rightarrow> strs_of xs \<noteq> None | Some _ \<Rightarrow> False)"

definition patient_profile :: "json \<Rightarrow> bool" where
  "patient_profile p =
     (case p of
        JObj kvs \<Rightarrow> opt_text (map_of kvs ''vitals'') \<and> opt_text (map_of kvs ''notes'')
                   \<and> opt_str_list (map_of kvs ''allergies'') \<and> opt_str_list (map_of kvs ''meds'')
      | _ \<Rightarrow> False)"

text \<open>
  The attempt made when \<open>k\<close> external calls have been made fails with the error message
  \<open>msg\<close>: the model call raises it, or reading the text of the response raises it, or
  decoding the text of the response raises it.
\<close>

abbreviation fails_with :: "env \<Rightarrow> string \<Rightarrow> nat \<Rightarrow> string \<Rightarrow> bool" where
  "fails_with e prompt k msg \<equiv>
     generate_content e k prompt = GenRaises msg
     \<or> generate_content e k prompt = GenResponse (TextRaises msg)
     \<or> (\<exists>answer. generate_content e k prompt = GenResponse (Text answer)
                  \<and> json_loads e answer = Inl msg)"

text \<open>That attempt succeeds: the model answers with a text that decodes to \<open>v\<close>.\<close>

abbreviation answers_with :: "env \<Rightarrow> string \<Rightarrow> nat \<Rightarrow> json \<Rightarrow> bool" where
  "answers_with e prompt k v \<equiv>
     (\<exists>answer. generate_content e k prompt = GenResponse (Text answer)
                \<and> json_loads e answer = Inr v)"

text \<open>The message contains the marker of rate limiting or of a server failure.\<close>

abbreviation has_marker :: "string \<Rightarrow> bool" where
  "has_marker msg \<equiv> (\<exists>a b. msg = a @ ''429'' @ b) \<or> (\<exists>a b. msg = a @ ''503'' @ b)"

text \<open>The same in terms of the code: the attempt fails with an error that the loop retries.\<close>

definition retry_failure :: "env \<Rightarrow> string \<Rightarrow> nat \<Rightarrow> bool" where
  "retry_failure e prompt k =
     (case try_generate e prompt k of Inl msg \<Rightarrow> retryable msg | Inr _ \<Rightarrow> False)"

text \<open>The first \<open>k\<close> delays of a backoff that starts at \<open>delay\<close> and doubles.\<close>

definition backoff :: "nat \<Rightarrow> nat \<Rightarrow> nat list" where
  "backoff delay k = map (\<lambda>i. delay * 2 ^ i) [0..<k]"

text \<open>The world after \<open>n\<close> more external calls and the first \<open>k\<close> backoff delays.\<close>

definition world_after :: "world \<Rightarrow> nat \<Rightarrow> nat \<Rightarrow> nat \<Rightarrow> world" where
  "world_after w n delay k = \<lparr>calls = calls w + n, slept = slept w @ backoff delay k\<rparr>"

text \<open>
  The state of the world in which the loop of the batch endpoint reaches each entry.
\<close>

fun loop_worlds :: "env \<Rightarrow> string \<Rightarrow> drug_def list \<Rightarrow> world \<Rightarrow> world list" where
  "loop_worlds e profile_text [] w = []"
| "loop_worlds e profile_text (drug_def # rest) w =
     w # loop_worlds e profile_text rest (snd (entry_report e profile_text drug_def w))"

text \<open>
  What the report \<open>r\<close> for a drug is, when that drug is fetched in the world \<open>wi\<close> for a
  request with the profile text \<open>t\<close>: \<^verbatim>\<open>fullData\<close> is never \<^verbatim>\<open>null\<close>, and either the fetch
  is absent, \<^verbatim>\<open>fullData\<close> is the empty object and there is one ERROR alert; or the fetch
  gives a record, \<^verbatim>\<open>fullData\<close> is that record (not the empty object) and the alerts are
  what the analyzer returns for that record, in the world the fetch has left.
\<close>

abbreviation report_shape :: "env \<Rightarrow> string \<Rightarrow> string \<Rightarrow> world \<Rightarrow> DrugReport \<Rightarrow> bool" where
  "report_shape e t drug_name wi r \<equiv>
     fullData r \<noteq> JNull
     \<and> ((fst (fetch_drug_data e drug_name wi) = Inr None
          \<and> fullData r = JObj []
          \<and> (\<exists>finding. alerts r = JArr [JObj [(''type'', JStr ERROR_TYPE),
                                                (''finding'', JStr finding)]]))
        \<or> (\<exists>d. fst (fetch_drug_data e drug_name wi) = Inr (Some d)
              \<and> fullData r = drug_data_json d
              \<and> fullData r \<noteq> JObj []
              \<and> fst (analyze_with_llm e t d (tick wi)) = Inr (alerts r)))"

section \<open>Test doubles for the external services\<close>

definition swap_letters :: "string \<Rightarrow> string \<Rightarrow> string \<Rightarrow> string" where
  "swap_letters from to =
     map (\<lambda>c. case map_of (zip from to) c of None \<Rightarrow> c | Some c' \<Rightarrow> c')"

definition ascii_lower :: "string \<Rightarrow> string" where
  "ascii_lower = swap_letters ''ABCDEFGHIJKLMNOPQRSTUVWXYZ'' ''abcdefghijklmnopqrstuvwxyz''"

definition ascii_upper :: "string \<Rightarrow> string" where
  "ascii_upper = swap_letters ''abcdefghijklmnopqrstuvwxyz'' ''ABCDEFGHIJKLMNOPQRSTUVWXYZ''"

definition stub_str :: "json \<Rightarrow> string" where
  "stub_str v =
     (case v of
        JNull \<Rightarrow> ''None''
      | JBool b \<Rightarrow> (if b then ''True'' else ''False'')
      | JInt n \<Rightarrow> (if 0 \<le> n \<and> n < 10 then [''0123456789'' ! nat n] else ''?'')
      | _ \<Rightarrow> ''?'')"

text \<open>
  A decoder that knows the empty array, finds the string that the cut-off answer leaves
  open, and rejects everything else.
\<close>

definition cut_off :: string where
  "cut_off = ''[{'' @ dquote @ ''type'' @ dquote @ '': '' @ dquote
             @ [CHR 0xF0, CHR 0x9F, CHR 0x94, CHR 0xB4] @ '' CONTRA''"

definition stub_loads :: "string \<Rightarrow> string + json" where
  "stub_loads text =
     (if text = ''[]'' then Inr (JArr [])
      else if text = cut_off
      then Inl ''Unterminated string starting at: line 1 column 11 (char 10)''
      else Inl ''Expecting value: line 1 column 1 (char 0)'')"

definition stub_env :: "(nat \<Rightarrow> string \<Rightarrow> http_outcome) \<Rightarrow> (nat \<Rightarrow> string \<Rightarrow> gen_outcome) \<Rightarrow> env" where
  "stub_env http llm =
     \<lparr>requests_get = http, generate_content = llm, json_loads = stub_loads,
      str_upper = ascii_upper, str_lower = ascii_lower, py_str = stub_str,
      print_raises = (\<lambda>text. None)\<rparr>"

text \<open>
  A standard output that encodes ASCII only: \<^verbatim>\<open>print\<close> raises on a text with any other
  character (a byte from 128 on, in UTF-8).
\<close>

definition ascii_only :: "string \<Rightarrow> exn option" where
  "ascii_only text =
     (if list_ex (\<lambda>c. 128 \<le> (of_char c :: nat)) text then Some UnicodeEncodeError else None)"

definition console_env :: "(nat \<Rightarrow> string \<Rightarrow> http_outcome) \<Rightarrow> (nat \<Rightarrow> string \<Rightarrow> gen_outcome) \<Rightarrow> env" where
  "console_env http llm = (stub_env http llm)\<lparr>print_raises := ascii_only\<rparr>"

definition w0 :: world where
  "w0 = \<lparr>calls = 0, slept = []\<rparr>"

definition lisinopril_label :: json where
  "lisinopril_label =
     JObj [(''results'',
       JArr [JObj [(''openfda'', JObj [(''brand_name'', JArr [JStr ''Zestril'']),
                                     (''generic_name'', JArr [JStr ''LISINOPRIL''])]),
                   (''contraindications'', JArr [JStr ''Do not use with Aliskiren in DIABETES.'']),
                   (''adverse_reactions'', JArr [JStr ''Dizziness'', JStr ''Cough''])]])]"

text \<open>A label record without the \<^verbatim>\<open>openfda\<close> names.\<close>

definition nameless_label :: json where
  "nameless_label =
     JObj [(''results'',
       JArr [JObj [(''contraindications'', JArr [JStr ''Hypersensitivity to SALICYLATES.''])]])]"

definition not_found :: json where
  "not_found = JObj [(''error'', JObj [(''code'', JStr ''NOT_FOUND'')])]"

text \<open>A lookup service that is down, and one that knows Lisinopril only.\<close>

definition offline :: "nat \<Rightarrow> string \<Rightarrow> http_outcome" where
  "offline k url = RequestException ''Read timed out.''"

definition online :: "nat \<Rightarrow> string \<Rightarrow> http_outcome" where
  "online k url =
     (if str_contains ''LISINOPRIL'' url then Body lisinopril_label else Body not_found)"


definition nameless :: "nat \<Rightarrow> string \<Rightarrow> http_outcome" where
  "nameless k url = Body nameless_label"

text \<open>
  Model services: always rate-limited; answering with the empty array; rate-limited,
  then unavailable, then answering (counted from the second external call, the first
  being the lookup); and failing with an error that is not retried.
\<close>

definition busy :: "nat \<Rightarrow> string \<Rightarrow> gen_outcome" where
  "busy k prompt = GenRaises ''429 Resource has been exhausted''"

definition empty_answer :: "nat \<Rightarrow> string \<Rightarrow> gen_outcome" where
  "empty_answer k prompt = GenResponse (Text ''[]'')"


definition denied :: "nat \<Rightarrow> string \<Rightarrow> gen_outcome" where
  "denied k prompt = GenRaises ''403 API key not valid''"

text \<open>
  Model services that answer with \<^const>\<open>cut_off\<close>, an answer cut off inside its first
  alert type (which starts with the red-circle sign U+1F534 of the response schema):
  at once, or after one rate-limited call.
\<close>

definition garbled :: "nat \<Rightarrow> string \<Rightarrow> gen_outcome" where
  "garbled k prompt = GenResponse (Text cut_off)"

definition busy_then_garbled :: "nat \<Rightarrow> string \<Rightarrow> gen_outcome" where
  "busy_then_garbled k prompt =
     (if k = 1 then GenRaises ''429 Resource has been exhausted''
      else GenResponse (Text cut_off))"

definition profile1 :: json where
  "profile1 = JObj [(''vitals'', JStr ''BP 150/95''), (''allergies'', JArr [JStr ''penicillin''])]"

definition zestril :: drug_data where
  "zestril =
     \<lparr>brandName = ''Zestril'', genericName = ''LISINOPRIL'',
      contraindications = ''do not use with aliskiren in diabetes.'',
      warnings_and_precautions = NO_INFORMATION,
      drugInteractions = NO_INFORMATION,
      adverseReactions = ''dizziness cough''\<rparr>"

section \<open>Strings\<close>

text \<open>\<^const>\<open>str_contains\<close> is the substring test.\<close>

lemma str_contains_iff: "str_contains n h \<longleftrightarrow> (\<exists>p s. h = p @ n @ s)"
proof (induction h)
  case Nil
  then show ?case by auto
next
  case (Cons c cs)
  show ?case
  proof
    assume "str_contains n (c # cs)"
    then consider "n = take (length n) (c # cs)" | "str_contains n cs" by auto
    then show "\<exists>p s. c # cs = p @ n @ s"
    proof cases
      case 1
      then have "c # cs = [] @ n @ drop (length n) (c # cs)"
        by (metis append_Nil append_take_drop_id)
      then show ?thesis by blast
    next
      case 2
      then obtain p s where "cs = p @ n @ s" using Cons.IH by blast
      then have "c # cs = (c # p) @ n @ s" by simp
      then show ?thesis by blast
    qed
  next
    assume "\<exists>p s. c # cs = p @ n @ s"
    then obtain p s where ps: "c # cs = p @ n @ s" by blast
    show "str_contains n (c # cs)"
    proof (cases p)
      case Nil
      then have "take (length n) (c # cs) = n" using ps by simp
      then show ?thesis by simp
    next
      case (Cons a p')
      then have "cs = p' @ n @ s" using ps by simp
      then show ?thesis using Cons.IH by auto
    qed
  qed
qed

lemma str_contains_mid: "str_contains n (p @ n @ s)"
  by (auto simp: str_contains_iff)

section \<open>The retry loop of the analyzer\<close>

lemma fails_with_iff:
  "fails_with e p k msg \<longleftrightarrow> try_generate e p k = Inl msg"
  by (cases "generate_content e k p" rule: gen_outcome.exhaust)
     (auto simp: try_generate_def split: llm_response.splits)

lemma answers_with_iff:
  "answers_with e p k v \<longleftrightarrow> try_generate e p k = Inr v"
  by (cases "generate_content e k p" rule: gen_outcome.exhaust)
     (auto simp: try_generate_def split: llm_response.splits)

lemma has_marker_iff: "has_marker msg \<longleftrightarrow> retryable msg"
  by (simp only: retryable_def str_contains_iff)

lemma retry_failure_iff:
  "retry_failure e p k \<longleftrightarrow> (\<exists>msg. fails_with e p k msg \<and> has_marker msg)"
  unfolding fails_with_iff has_marker_iff
  by (cases "try_generate e p k") (simp_all add: retry_failure_def)

lemma backoff_Suc: "backoff delay (Suc k) = delay # backoff (delay * 2) k"
  unfolding backoff_def
  by (simp add: map_upt_Suc del: upt_Suc)

lemma retry_loop_step:
  assumes "\<forall>text. print_raises e text = None"
    and "retry_failure e p (calls w)"
  shows "retry_loop e p a r (Suc n) delay w
     = retry_loop e p (a + 1) (bound_response r (generate_content e (calls w) p)) n (delay * 2)
         (sleep delay (tick w))"
  using assms
  by (cases "try_generate e p (calls w)") (simp_all add: retry_failure_def Let_def)

lemma retry_loop_last:
  assumes "\<forall>text. print_raises e text = None"
    and "\<not> retry_failure e p (calls w)"
  shows "retry_loop e p a r (Suc n) delay w
     = ((case try_generate e p (calls w) of
           Inr v \<Rightarrow> Inr v
         | Inl msg \<Rightarrow> Inr (JArr [error_alert (''Could not analyze drug: '' @ msg)])),
        tick w)"
  using assms
  by (cases "try_generate e p (calls w)") (simp_all add: retry_failure_def Let_def)

lemma retry_loop_stop:
  assumes "\<forall>text. print_raises e text = None"
    and "k < n"
    and "\<forall>i<k. retry_failure e p (calls w + i)"
    and "\<not> retry_failure e p (calls w + k)"
  shows "retry_loop e p a r n delay w =
           ((case try_generate e p (calls w + k) of
               Inr v \<Rightarrow> Inr v
             | Inl msg \<Rightarrow> Inr (JArr [error_alert (''Could not analyze drug: '' @ msg)])),
            world_after w (Suc k) delay k)"
  using assms(2-4)
proof (induction n arbitrary: k delay w a r)
  case 0
  then show ?case by simp
next
  case (Suc n)
  show ?case
  proof (cases k)
    case 0
    with Suc.prems(3) have "\<not> retry_failure e p (calls w)" by simp
    from retry_loop_last [OF assms(1) this] 0 show ?thesis
      by (simp add: world_after_def backoff_def tick_def)
  next
    case (Suc k')
    let ?w1 = "sleep delay (tick w)"
    let ?r1 = "bound_response r (generate_content e (calls w) p)"
    from Suc.prems(2) Suc have first: "retry_failure e p (calls w)" by force
    have c1: "calls ?w1 = Suc (calls w)" by (simp add: sleep_def tick_def)
    have "k' < n" using Suc.prems(1) Suc by simp
    moreover have "\<forall>i<k'. retry_failure e p (calls ?w1 + i)"
      using Suc.prems(2) Suc c1 by auto
    moreover have "\<not> retry_failure e p (calls ?w1 + k')"
      using Suc.prems(3) Suc c1 by simp
    ultimately have "retry_loop e p (a + 1) ?r1 n (delay * 2) ?w1 =
           ((case try_generate e p (calls ?w1 + k') of
               Inr v \<Rightarrow> Inr v
             | Inl msg \<Rightarrow> Inr (JArr [error_alert (''Could not analyze drug: '' @ msg)])),
            world_after ?w1 (Suc k') (delay * 2) k')"
      by (rule Suc.IH)
    moreover have "world_after ?w1 (Suc k') (delay * 2) k' = world_after w (Suc k) delay k"
      by (simp add: world_after_def Suc backoff_Suc sleep_def tick_def)
    moreover have "calls ?w1 + k' = calls w + k" using c1 Suc by simp
    ultimately show ?thesis
      using retry_loop_step [OF assms(1) first, of a r n delay] by simp
  qed
qed

lemma retry_loop_exhausted:
  assumes "\<forall>text. print_raises e text = None"
    and "\<forall>i<n. retry_failure e p (calls w + i)"
  shows "retry_loop e p a r n delay w =
           (Inr (JArr [error_alert ''Could not analyze drug after multiple retries.'']),
            world_after w n delay n)"
  using assms(2)
proof (induction n arbitrary: delay w a r)
  case 0
  then show ?case by (simp add: world_after_def backoff_def)
next
  case (Suc n)
  let ?w1 = "sleep delay (tick w)"
  let ?r1 = "bound_response r (generate_content e (calls w) p)"
  from Suc.prems have first: "retry_failure e p (calls w)" by force
  have c1: "calls ?w1 = Suc (calls w)" by (simp add: sleep_def tick_def)
  have "\<forall>i<n. retry_failure e p (calls ?w1 + i)"
    using Suc.prems c1 by auto
  then have "retry_loop e p (a + 1) ?r1 n (delay * 2) ?w1 =
      (Inr (JArr [error_alert ''Could not analyze drug after multiple retries.'']),
       world_after ?w1 n (delay * 2) n)"
    by (rule Suc.IH)
  moreover have "world_after ?w1 n (delay * 2) n = world_after w (Suc n) delay (Suc n)"
    by (simp add: world_after_def backoff_Suc sleep_def tick_def)
  ultimately show ?case
    using retry_loop_step [OF assms(1) first, of a r n delay] by simp
qed




lemma backoff_3: "k \<le> 3 \<Longrightarrow> backoff 1 k = take k [1, 2, 4]"
proof -
  assume "k \<le> 3"
  then consider "k = 0" | "k = 1" | "k = 2" | "k = 3" by linarith
  then show ?thesis
    by cases (simp_all add: backoff_def upt_rec numeral_2_eq_2 numeral_3_eq_3)
qed

lemma retry_policy:
  assumes "\<forall>text. print_raises e text = None"
    and "k \<le> 3"
    and "\<forall>i<k. \<exists>msg. fails_with e (user_prompt t d) (calls w + i) msg \<and> has_marker msg"
  shows "(k = 3 \<longrightarrow>
            analyze_with_llm e t d w
              = (Inr (JArr [JObj [(''type'', JStr ERROR_TYPE),
                   (''finding'', JStr ''Could not analyze drug after multiple retries.'')]]),
                 \<lparr>calls = calls w + 3, slept = slept w @ [1, 2, 4]\<rparr>))
       \<and> (k < 3 \<longrightarrow>
            (\<forall>v. answers_with e (user_prompt t d) (calls w + k) v \<longrightarrow>
               analyze_with_llm e t d w
                 = (Inr v, \<lparr>calls = calls w + Suc k, slept = slept w @ take k [1, 2, 4]\<rparr>))
          \<and> (\<forall>msg. fails_with e (user_prompt t d) (calls w + k) msg \<and> \<not> has_marker msg \<longrightarrow>
               analyze_with_llm e t d w
                 = (Inr (JArr [JObj [(''type'', JStr ERROR_TYPE),
                      (''finding'', JStr (''Could not analyze drug: '' @ msg))]]),
                    \<lparr>calls = calls w + Suc k, slept = slept w @ take k [1, 2, 4]\<rparr>)))"
proof -
  let ?p = "user_prompt t d"
  from assms(3) have lead: "\<forall>i<k. retry_failure e ?p (calls w + i)"
    by (simp only: retry_failure_iff)
  have after: "world_after w n 1 k = \<lparr>calls = calls w + n, slept = slept w @ take k [1, 2, 4]\<rparr>" for n
    using backoff_3 [OF assms(2)] by (simp add: world_after_def)
  have all: "analyze_with_llm e t d w
              = (Inr (JArr [JObj [(''type'', JStr ERROR_TYPE),
                   (''finding'', JStr ''Could not analyze drug after multiple retries.'')]]),
                 \<lparr>calls = calls w + 3, slept = slept w @ [1, 2, 4]\<rparr>)" if "k = 3"
  proof -
    from lead that have "\<forall>i<3. retry_failure e ?p (calls w + i)" by simp
    from retry_loop_exhausted [OF assms(1) this, of 0 None 1] after [of 3] that
    show ?thesis
      by (simp add: analyze_with_llm_def attempts_def max_retries_def error_alert_def)
  qed
  have ok: "analyze_with_llm e t d w
                 = (Inr v, \<lparr>calls = calls w + Suc k, slept = slept w @ take k [1, 2, 4]\<rparr>)"
    if "k < 3" and "answers_with e ?p (calls w + k) v" for v
  proof -
    from that(2) have v: "try_generate e ?p (calls w + k) = Inr v"
      by (simp only: answers_with_iff)
    then have "\<not> retry_failure e ?p (calls w + k)" by (simp add: retry_failure_def)
    from retry_loop_stop [OF assms(1) that(1) lead this, of 0 None 1] v after [of "Suc k"]
    show ?thesis
      by (simp add: analyze_with_llm_def attempts_def max_retries_def)
  qed
  have other: "analyze_with_llm e t d w
                 = (Inr (JArr [JObj [(''type'', JStr ERROR_TYPE),
                      (''finding'', JStr (''Could not analyze drug: '' @ msg))]]),
                    \<lparr>calls = calls w + Suc k, slept = slept w @ take k [1, 2, 4]\<rparr>)"
    if "k < 3" and "fails_with e ?p (calls w + k) msg \<and> \<not> has_marker msg" for msg
  proof -
    from that(2) have m: "try_generate e ?p (calls w + k) = Inl msg" "\<not> retryable msg"
      by (simp_all only: fails_with_iff has_marker_iff simp_thms)
    then have "\<not> retry_failure e ?p (calls w + k)" by (simp add: retry_failure_def)
    from retry_loop_stop [OF assms(1) that(1) lead this, of 0 None 1] m(1) after [of "Suc k"]
    show ?thesis
      by (simp add: analyze_with_llm_def attempts_def max_retries_def error_alert_def)
  qed
  from all ok other show ?thesis by (intro conjI impI allI)
qed

text \<open>
  Claim C2. In every run in which the \<^verbatim>\<open>print\<close> calls of the handler succeed, the analyzer
  follows the retry policy. Let the first \<open>k \<le> 3\<close> calls of the model fail (the call
  raises, reading \<^verbatim>\<open>response.text\<close> raises, or the text does not decode) with a message
  that contains \<^verbatim>\<open>429\<close> or \<^verbatim>\<open>503\<close>. If \<open>k = 3\<close>, the analyzer makes exactly three calls, sleeps
  1, 2 and 4 and returns the single generic ERROR alert. If \<open>k < 3\<close> and the next call
  answers a text that decodes, it returns the decoded value after \<open>k + 1\<close> calls and the
  first \<open>k\<close> of the delays 1, 2, 4; if the next call fails with a message that contains
  neither marker, it returns at once, after the same calls and delays, the single ERROR
  alert whose finding carries that message.

  The handler prints before it decides, outside any guard. On a standard output that
  encodes ASCII only, with a first call refused with a 429 message and a second call
  whose answer is cut off inside the label of the first category of the schema, the
  print of the raw answer raises: the analyzer raises \<^verbatim>\<open>UnicodeEncodeError\<close> to its caller
  where the policy returns the ERROR alert that carries the message of the decoder.
\<close>

theorem analyze_with_llm_retry_policy:
  "((\<forall>text. print_raises e text = None) \<and> k \<le> 3
     \<and> (\<forall>i<k. \<exists>msg. fails_with e (user_prompt t d) (calls w + i) msg \<and> has_marker msg)
    \<longrightarrow>
      (k = 3 \<longrightarrow>
         analyze_with_llm e t d w
           = (Inr (JArr [JObj [(''type'', JStr ERROR_TYPE),
                (''finding'', JStr ''Could not analyze drug after multiple retries.'')]]),
              \<lparr>calls = calls w + 3, slept = slept w @ [1, 2, 4]\<rparr>))
    \<and> (k < 3 \<longrightarrow>
         (\<forall>v. answers_with e (user_prompt t d) (calls w + k) v \<longrightarrow>
            analyze_with_llm e t d w
              = (Inr v, \<lparr>calls = calls w + Suc k, slept = slept w @ take k [1, 2, 4]\<rparr>))
       \<and> (\<forall>msg. fails_with e (user_prompt t d) (calls w + k) msg \<and> \<not> has_marker msg \<longrightarrow>
            analyze_with_llm e t d w
              = (Inr (JArr [JObj [(''type'', JStr ERROR_TYPE),
                   (''finding'', JStr (''Could not analyze drug: '' @ msg))]]),
                 \<lparr>calls = calls w + Suc k, slept = slept w @ take k [1, 2, 4]\<rparr>))))
   \<and> generate_content (console_env online busy_then_garbled) 1 (user_prompt ''profile'' zestril)
       = GenRaises ''429 Resource has been exhausted''
   \<and> generate_content (console_env online busy_then_garbled) 2 (user_prompt ''profile'' zestril)
       = GenResponse (Text cut_off)
   \<and> json_loads (console_env online busy_then_garbled) cut_off
       = Inl ''Unterminated string starting at: line 1 column 11 (char 10)''
   \<and> print_raises (console_env online busy_then_garbled) (''LLM Response (raw): '' @ cut_off)
       = Some UnicodeEncodeError
   \<and> analyze_with_llm (console_env online busy_then_garbled) ''profile'' zestril (tick w0)
       = (Inl UnicodeEncodeError, \<lparr>calls = 3, slept = [1]\<rparr>)"
proof (rule conjI)
  show "(\<forall>text. print_raises e text = None) \<and> k \<le> 3
     \<and> (\<forall>i<k. \<exists>msg. fails_with e (user_prompt t d) (calls w + i) msg \<and> has_marker msg)
    \<longrightarrow>
      (k = 3 \<longrightarrow>
         analyze_with_llm e t d w
           = (Inr (JArr [JObj [(''type'', JStr ERROR_TYPE),
                (''finding'', JStr ''Could not analyze drug after multiple retries.'')]]),
              \<lparr>calls = calls w + 3, slept = slept w @ [1, 2, 4]\<rparr>))
    \<and> (k < 3 \<longrightarrow>
         (\<forall>v. answers_with e (user_prompt t d) (calls w + k) v \<longrightarrow>
            analyze_with_llm e t d w
              = (Inr v, \<lparr>calls = calls w + Suc k, slept = slept w @ take k [1, 2, 4]\<rparr>))
       \<and> (\<forall>msg. fails_with e (user_prompt t d) (calls w + k) msg \<and> \<not> has_marker msg \<longrightarrow>
            analyze_with_llm e t d w
              = (Inr (JArr [JObj [(''type'', JStr ERROR_TYPE),
                   (''finding'', JStr (''Could not analyze drug: '' @ msg))]]),
                 \<lparr>calls = calls w + Suc k, slept = slept w @ take k [1, 2, 4]\<rparr>)))"
  proof (rule impI)
    assume h: "(\<forall>text. print_raises e text = None) \<and> k \<le> 3
     \<and> (\<forall>i<k. \<exists>msg. fails_with e (user_prompt t d) (calls w + i) msg \<and> has_marker msg)"
    show "(k = 3 \<longrightarrow>
         analyze_with_llm e t d w
           = (Inr (JArr [JObj [(''type'', JStr ERROR_TYPE),
                (''finding'', JStr ''Could not analyze drug after multiple retries.'')]]),
              \<lparr>calls = calls w + 3, slept = slept w @ [1, 2, 4]\<rparr>))
    \<and> (k < 3 \<longrightarrow>
         (\<forall>v. answers_with e (user_prompt t d) (calls w + k) v \<longrightarrow>
            analyze_with_llm e t d w
              = (Inr v, \<lparr>calls = calls w + Suc k, slept = slept w @ take k [1, 2, 4]\<rparr>))
       \<and> (\<forall>msg. fails_with e (user_prompt t d) (calls w + k) msg \<and> \<not> has_marker msg \<longrightarrow>
            analyze_with_llm e t d w
              = (Inr (JArr [JObj [(''type'', JStr ERROR_TYPE),
                   (''finding'', JStr (''Could not analyze drug: '' @ msg))]]),
                 \<lparr>calls = calls w + Suc k, slept = slept w @ take k [1, 2, 4]\<rparr>)))"
      by (rule retry_policy [OF h [THEN conjunct1] h [THEN conjunct2, THEN conjunct1]
                                h [THEN conjunct2, THEN conjunct2]])
  qed
next
  show "generate_content (console_env online busy_then_garbled) 1 (user_prompt ''profile'' zestril)
       = GenRaises ''429 Resource has been exhausted''
   \<and> generate_content (console_env online busy_then_garbled) 2 (user_prompt ''profile'' zestril)
       = GenResponse (Text cut_off)
   \<and> json_loads (console_env online busy_then_garbled) cut_off
       = Inl ''Unterminated string starting at: line 1 column 11 (char 10)''
   \<and> print_raises (console_env online busy_then_garbled) (''LLM Response (raw): '' @ cut_off)
       = Some UnicodeEncodeError
   \<and> analyze_with_llm (console_env online busy_then_garbled) ''profile'' zestril (tick w0)
       = (Inl UnicodeEncodeError, \<lparr>calls = 3, slept = [1]\<rparr>)"
    by code_simp
qed

theorem analyze_with_llm_retry_policy_witness:
  "(\<forall>text. print_raises (stub_env online busy_then_garbled) text = None)
   \<and> fails_with (stub_env online busy_then_garbled) (user_prompt ''profile'' zestril)
       (calls (tick w0) + 0) ''429 Resource has been exhausted''
   \<and> has_marker ''429 Resource has been exhausted''
   \<and> fails_with (stub_env online busy_then_garbled) (user_prompt ''profile'' zestril)
       (calls (tick w0) + 1) ''Unterminated string starting at: line 1 column 11 (char 10)''
   \<and> \<not> has_marker ''Unterminated string starting at: line 1 column 11 (char 10)''
   \<and> analyze_with_llm (stub_env online busy_then_garbled) ''profile'' zestril (tick w0)
       = (Inr (JArr [JObj [(''type'', JStr ERROR_TYPE),
            (''finding'', JStr (''Could not analyze drug: ''
               @ ''Unterminated string starting at: line 1 column 11 (char 10)''))]]),
          \<lparr>calls = 3, slept = [1]\<rparr>)"
proof -
  let ?e = "stub_env online busy_then_garbled"
  let ?p = "user_prompt ''profile'' zestril"
  let ?busy = "''429 Resource has been exhausted''"
  let ?cut = "''Unterminated string starting at: line 1 column 11 (char 10)''"
  have pr: "\<forall>text. print_raises ?e text = None" by (simp add: stub_env_def)
  have t0: "try_generate ?e ?p (calls (tick w0) + 0) = Inl ?busy" by code_simp
  have t1: "try_generate ?e ?p (calls (tick w0) + 1) = Inl ?cut" by code_simp
  have r0: "retryable ?busy" by code_simp
  have r1: "\<not> retryable ?cut" by code_simp
  from t0 have f0: "fails_with ?e ?p (calls (tick w0) + 0) ?busy" by (simp only: fails_with_iff)
  from t1 have f1: "fails_with ?e ?p (calls (tick w0) + 1) ?cut" by (simp only: fails_with_iff)
  from r0 have m0: "has_marker ?busy" by (simp only: has_marker_iff)
  from r1 have m1: "\<not> has_marker ?cut" by (simp only: has_marker_iff simp_thms)
  have "\<exists>msg. fails_with ?e ?p (calls (tick w0) + 0) msg \<and> has_marker msg"
    by (rule exI [of _ ?busy]) (rule conjI [OF f0 m0])
  then have lead: "\<forall>i<1. \<exists>msg. fails_with ?e ?p (calls (tick w0) + i) msg \<and> has_marker msg"
    by simp
  have k3: "(1::nat) \<le> 3" and lt: "(1::nat) < 3" by simp_all
  from analyze_with_llm_retry_policy
         [where e = ?e and k = 1 and t = "''profile''" and d = zestril and w = "tick w0",
          THEN conjunct1, THEN mp, OF conjI [OF pr conjI [OF k3 lead]],
          THEN conjunct2, THEN mp, OF lt, THEN conjunct2, THEN spec, THEN mp,
          OF conjI [OF f1 m1]]
  have run: "analyze_with_llm ?e ''profile'' zestril (tick w0)
       = (Inr (JArr [JObj [(''type'', JStr ERROR_TYPE),
            (''finding'', JStr (''Could not analyze drug: '' @ ?cut))]]),
          \<lparr>calls = 3, slept = [1]\<rparr>)"
    by (simp add: tick_def w0_def sleep_def)
  show ?thesis
    by (rule conjI [OF pr conjI [OF f0 conjI [OF m0 conjI [OF f1 conjI [OF m1 run]]]]])
qed

text \<open>
  Claim C5. The analyzer catches every exception of the model call, of reading
  \<^verbatim>\<open>response.text\<close> and of the decoder, and its handler then prints the message and the
  raw answer outside any guard. On a standard output that encodes ASCII only, a model
  answer that does not decode and holds a character of the schema's category labels
  makes that print raise: the analyzer raises \<^verbatim>\<open>UnicodeEncodeError\<close> to its caller, after
  one call of the model and no sleep. On a standard output that takes every text, the same
  answer gives the one-element list with the ERROR alert that carries the message of the
  decoder.
\<close>

theorem analyze_with_llm_raises:
  "generate_content (console_env online garbled) 0 (user_prompt ''profile'' zestril)
     = GenResponse (Text cut_off)
   \<and> json_loads (console_env online garbled) cut_off
     = Inl ''Unterminated string starting at: line 1 column 11 (char 10)''
   \<and> print_raises (console_env online garbled)
       (''Error calling LLM on attempt 1: ''
        @ ''Unterminated string starting at: line 1 column 11 (char 10)'') = None
   \<and> print_raises (console_env online garbled) (''LLM Response (raw): '' @ cut_off)
     = Some UnicodeEncodeError
   \<and> analyze_with_llm (console_env online garbled) ''profile'' zestril w0
     = (Inl UnicodeEncodeError, \<lparr>calls = 1, slept = []\<rparr>)
   \<and> analyze_with_llm (stub_env online garbled) ''profile'' zestril w0
     = (Inr (JArr [JObj [(''type'', JStr ERROR_TYPE),
          (''finding'', JStr (''Could not analyze drug: ''
             @ ''Unterminated string starting at: line 1 column 11 (char 10)''))]]),
        \<lparr>calls = 1, slept = []\<rparr>)"
  by code_simp

section \<open>The profile formatter\<close>

lemma opt_text_format:
  assumes "opt_text (map_of kvs key)"
  shows "format_value e (dict_get kvs key (JStr ''N/A''))
           = (case map_of kvs key of Some (JStr s) \<Rightarrow> s | _ \<Rightarrow> ''N/A'')"
  using assms
  by (auto simp: opt_text_def dict_get_def format_value_def split: option.splits json.splits)

lemma opt_str_list_join:
  assumes "opt_str_list (map_of kvs key)"
  shows "py_join sep (dict_get kvs key (JArr []))
           = Inr (case map_of kvs key of Some (JArr xs) \<Rightarrow> join sep (the (strs_of xs)) | _ \<Rightarrow> [])"
  using assms
  by (auto simp: opt_str_list_def dict_get_def split: option.splits json.splits)

lemma patient_profile_text:
  assumes "patient_profile (JObj kvs)"
  shows "get_profile_text e (JObj kvs)
     = Inr (profile_block
         (case map_of kvs ''vitals'' of Some (JStr s) \<Rightarrow> s | _ \<Rightarrow> ''N/A'')
         (case map_of kvs ''notes'' of Some (JStr s) \<Rightarrow> s | _ \<Rightarrow> ''N/A'')
         (or_na (case map_of kvs ''allergies'' of
                   Some (JArr xs) \<Rightarrow> join '', '' (the (strs_of xs)) | _ \<Rightarrow> []))
         (or_na (case map_of kvs ''meds'' of
                   Some (JArr xs) \<Rightarrow> join '', '' (the (strs_of xs)) | _ \<Rightarrow> [])))"
proof -
  from assms have t: "opt_text (map_of kvs ''vitals'')" "opt_text (map_of kvs ''notes'')"
    and l: "opt_str_list (map_of kvs ''allergies'')" "opt_str_list (map_of kvs ''meds'')"
    by (simp_all add: patient_profile_def)
  show ?thesis
    unfolding get_profile_text_def json.case Let_def
      opt_text_format [OF t(1)] opt_text_format [OF t(2)]
      opt_str_list_join [OF l(1)] opt_str_list_join [OF l(2)] raising_def sum.case
    by (rule refl)
qed

lemma patient_profile_obj: "patient_profile profile \<Longrightarrow> \<exists>kvs. profile = JObj kvs"
  by (cases profile) (simp_all add: patient_profile_def)

lemma patient_profile_ok:
  assumes "patient_profile profile"
  shows "\<exists>t. \<forall>e. get_profile_text e profile = Inr t"
proof -
  from assms obtain kvs where p: "profile = JObj kvs"
    using patient_profile_obj by blast
  from assms show ?thesis
    unfolding p by (subst patient_profile_text) (assumption, rule exI, rule allI, rule refl)
qed


lemma or_na_absent:
  "m = None \<or> m = Some (JArr []) \<Longrightarrow>
     or_na (case m of Some (JArr xs) \<Rightarrow> join sep (the (strs_of xs)) | _ \<Rightarrow> []) = ''N/A''"
  by (auto simp: or_na_def)

text \<open>
  Claim C8. The profile formatter has no effect and does not depend on the external
  services or the library: on every patient profile, with any of its four fields missing,
  it returns (and does not raise) one and the same text in every environment. The text is
  the fixed block of four labelled lines (vitals, notes, allergies, medications), and a
  profile whose \<^verbatim>\<open>allergies\<close> and \<^verbatim>\<open>meds\<close> are each missing or the empty list has
  \<^verbatim>\<open>N/A\<close> in both of these lines.
\<close>

theorem get_profile_text_total:
  assumes "patient_profile profile"
  shows "\<exists>vitals notes allergies meds.
      (\<forall>e. get_profile_text e profile
            = Inr (nl @ ''    - Vitals: '' @ vitals @ nl
                   @ ''    - Notes/History: '' @ notes @ nl
                   @ ''    - Allergies: '' @ allergies @ nl
                   @ ''    - Other Medications: '' @ meds @ nl
                   @ ''    ''))
    \<and> (\<forall>kvs. profile = JObj kvs
          \<and> (map_of kvs ''allergies'' = None \<or> map_of kvs ''allergies'' = Some (JArr []))
          \<and> (map_of kvs ''meds'' = None \<or> map_of kvs ''meds'' = Some (JArr []))
          \<longrightarrow> allergies = ''N/A'' \<and> meds = ''N/A'')"
proof -
  from assms obtain kvs where p: "profile = JObj kvs"
    using patient_profile_obj by blast
  let ?v = "case map_of kvs ''vitals'' of Some (JStr s) \<Rightarrow> s | _ \<Rightarrow> ''N/A''"
  let ?n = "case map_of kvs ''notes'' of Some (JStr s) \<Rightarrow> s | _ \<Rightarrow> ''N/A''"
  let ?a = "or_na (case map_of kvs ''allergies'' of
                   Some (JArr xs) \<Rightarrow> join '', '' (the (strs_of xs)) | _ \<Rightarrow> [])"
  let ?m = "or_na (case map_of kvs ''meds'' of
                   Some (JArr xs) \<Rightarrow> join '', '' (the (strs_of xs)) | _ \<Rightarrow> [])"
  have eq: "\<forall>e. get_profile_text e profile
            = Inr (nl @ ''    - Vitals: '' @ ?v @ nl
                   @ ''    - Notes/History: '' @ ?n @ nl
                   @ ''    - Allergies: '' @ ?a @ nl
                   @ ''    - Other Medications: '' @ ?m @ nl
                   @ ''    '')"
    using assms unfolding p by (simp only: patient_profile_text profile_block_def simp_thms)
  have na: "\<forall>kvs'. profile = JObj kvs'
          \<and> (map_of kvs' ''allergies'' = None \<or> map_of kvs' ''allergies'' = Some (JArr []))
          \<and> (map_of kvs' ''meds'' = None \<or> map_of kvs' ''meds'' = Some (JArr []))
          \<longrightarrow> ?a = ''N/A'' \<and> ?m = ''N/A''"
  proof (intro allI impI)
    fix kvs'
    assume a: "profile = JObj kvs'
          \<and> (map_of kvs' ''allergies'' = None \<or> map_of kvs' ''allergies'' = Some (JArr []))
          \<and> (map_of kvs' ''meds'' = None \<or> map_of kvs' ''meds'' = Some (JArr []))"
    with p have k: "kvs' = kvs" by simp
    from a have "?a = ''N/A''" unfolding k by (intro or_na_absent) (elim conjE)
    moreover from a have "?m = ''N/A''" unfolding k by (intro or_na_absent) (elim conjE)
    ultimately show "?a = ''N/A'' \<and> ?m = ''N/A''" by (rule conjI)
  qed
  from eq na show ?thesis
    by (intro exI [of _ ?v] exI [of _ ?n] exI [of _ ?a] exI [of _ ?m] conjI)
qed

theorem get_profile_text_total_witness:
  "patient_profile (JObj [(''notes'', JStr ''headache'')])
   \<and> get_profile_text (stub_env offline busy) (JObj [(''notes'', JStr ''headache'')])
       = Inr (nl @ ''    - Vitals: N/A'' @ nl
              @ ''    - Notes/History: headache'' @ nl
              @ ''    - Allergies: N/A'' @ nl
              @ ''    - Other Medications: N/A'' @ nl
              @ ''    '')"
proof -
  have h: "patient_profile (JObj [(''notes'', JStr ''headache'')])"
    by (simp add: patient_profile_def opt_text_def opt_str_list_def)
  from get_profile_text_total [OF h] obtain t where
    "get_profile_text (stub_env offline busy) (JObj [(''notes'', JStr ''headache'')]) = Inr t"
    by (elim exE conjE allE [of _ "stub_env offline busy"])
  then show ?thesis using h
    by (simp add: get_profile_text_def dict_get_def format_value_def raising_def
        profile_block_def or_na_def)
qed

text \<open>
  Claim C10. On a patient profile the formatter renders \<^verbatim>\<open>vitals\<close> (and likewise
  \<^verbatim>\<open>notes\<close>) as the text itself when the key is present, so as the empty text when it
  is present with the empty string, and as \<^verbatim>\<open>N/A\<close> when the key is absent: the default
  \<^verbatim>\<open>N/A\<close> is used for an absent key only. \<^verbatim>\<open>allergies\<close> and \<^verbatim>\<open>meds\<close> are rendered as
  \<^verbatim>\<open>N/A\<close> both when the key is absent and when the list is empty, and as the list joined
  with commas when that is not the empty text.
\<close>

theorem get_profile_text_empty_vs_absent:
  assumes "patient_profile (JObj kvs)"
  shows "\<exists>vitals notes allergies meds.
      get_profile_text e (JObj kvs) = Inr (profile_block vitals notes allergies meds)
    \<and> (map_of kvs ''vitals'' = Some (JStr []) \<longrightarrow> vitals = [])
    \<and> (map_of kvs ''vitals'' = None \<longrightarrow> vitals = ''N/A'')
    \<and> (map_of kvs ''notes'' = Some (JStr []) \<longrightarrow> notes = [])
    \<and> (map_of kvs ''notes'' = None \<longrightarrow> notes = ''N/A'')
    \<and> (map_of kvs ''allergies'' = None \<or> map_of kvs ''allergies'' = Some (JArr [])
         \<longrightarrow> allergies = ''N/A'')
    \<and> (map_of kvs ''meds'' = None \<or> map_of kvs ''meds'' = Some (JArr []) \<longrightarrow> meds = ''N/A'')
    \<and> (\<forall>s. map_of kvs ''vitals'' = Some (JStr s) \<longrightarrow> vitals = s)
    \<and> (\<forall>s. map_of kvs ''notes'' = Some (JStr s) \<longrightarrow> notes = s)
    \<and> (\<forall>xs ss. map_of kvs ''allergies'' = Some (JArr xs) \<and> strs_of xs = Some ss
           \<and> join '', '' ss \<noteq> [] \<longrightarrow> allergies = join '', '' ss)
    \<and> (\<forall>xs ss. map_of kvs ''meds'' = Some (JArr xs) \<and> strs_of xs = Some ss
           \<and> join '', '' ss \<noteq> [] \<longrightarrow> meds = join '', '' ss)"
proof -
  let ?v = "case map_of kvs ''vitals'' of Some (JStr s) \<Rightarrow> s | _ \<Rightarrow> ''N/A''"
  let ?n = "case map_of kvs ''notes'' of Some (JStr s) \<Rightarrow> s | _ \<Rightarrow> ''N/A''"
  let ?a = "or_na (case map_of kvs ''allergies'' of
                   Some (JArr xs) \<Rightarrow> join '', '' (the (strs_of xs)) | _ \<Rightarrow> [])"
  let ?m = "or_na (case map_of kvs ''meds'' of
                   Some (JArr xs) \<Rightarrow> join '', '' (the (strs_of xs)) | _ \<Rightarrow> [])"
  have 1: "get_profile_text e (JObj kvs) = Inr (profile_block ?v ?n ?a ?m)"
    using assms by (rule patient_profile_text)
  have 2: "map_of kvs ''vitals'' = Some (JStr []) \<longrightarrow> ?v = []" by simp
  have 3: "map_of kvs ''vitals'' = None \<longrightarrow> ?v = ''N/A''" by simp
  have 4: "map_of kvs ''notes'' = Some (JStr []) \<longrightarrow> ?n = []" by simp
  have 5: "map_of kvs ''notes'' = None \<longrightarrow> ?n = ''N/A''" by simp
  have 6: "map_of kvs ''allergies'' = None \<or> map_of kvs ''allergies'' = Some (JArr [])
         \<longrightarrow> ?a = ''N/A''"
    by (rule impI) (rule or_na_absent)
  have 7: "map_of kvs ''meds'' = None \<or> map_of kvs ''meds'' = Some (JArr []) \<longrightarrow> ?m = ''N/A''"
    by (rule impI) (rule or_na_absent)
  have 8: "\<forall>s. map_of kvs ''vitals'' = Some (JStr s) \<longrightarrow> ?v = s" by simp
  have 9: "\<forall>s. map_of kvs ''notes'' = Some (JStr s) \<longrightarrow> ?n = s" by simp
  have 10: "\<forall>xs ss. map_of kvs ''allergies'' = Some (JArr xs) \<and> strs_of xs = Some ss
           \<and> join '', '' ss \<noteq> [] \<longrightarrow> ?a = join '', '' ss"
    by (simp add: or_na_def)
  have 11: "\<forall>xs ss. map_of kvs ''meds'' = Some (JArr xs) \<and> strs_of xs = Some ss
           \<and> join '', '' ss \<noteq> [] \<longrightarrow> ?m = join '', '' ss"
    by (simp add: or_na_def)
  from 1 2 3 4 5 6 7 8 9 10 11 show ?thesis
    by (intro exI [of _ ?v] exI [of _ ?n] exI [of _ ?a] exI [of _ ?m] conjI)
qed

theorem get_profile_text_empty_vs_absent_witness:
  "patient_profile (JObj [(''vitals'', JStr []), (''notes'', JStr ''dry cough''), (''allergies'', JArr []),
                          (''meds'', JArr [JStr ''aspirin'', JStr ''statin''])])
   \<and> get_profile_text (stub_env offline busy)
        (JObj [(''vitals'', JStr []), (''notes'', JStr ''dry cough''), (''allergies'', JArr []),
               (''meds'', JArr [JStr ''aspirin'', JStr ''statin''])])
       = Inr (profile_block [] ''dry cough'' ''N/A'' ''aspirin, statin'')
   \<and> profile_block [] ''dry cough'' ''N/A'' ''aspirin, statin''
       = nl @ ''    - Vitals: '' @ nl
         @ ''    - Notes/History: dry cough'' @ nl
         @ ''    - Allergies: N/A'' @ nl
         @ ''    - Other Medications: aspirin, statin'' @ nl
         @ ''    ''"
proof -
  let ?kvs = "[(''vitals'', JStr []), (''notes'', JStr ''dry cough''), (''allergies'', JArr []),
               (''meds'', JArr [JStr ''aspirin'', JStr ''statin''])]"
  have h: "patient_profile (JObj ?kvs)"
    by (simp add: patient_profile_def opt_text_def opt_str_list_def)
  from get_profile_text_empty_vs_absent [OF h, of "stub_env offline busy"]
  obtain vs ns as ms where
    t: "get_profile_text (stub_env offline busy) (JObj ?kvs) = Inr (profile_block vs ns as ms)"
    and v: "map_of ?kvs ''vitals'' = Some (JStr []) \<longrightarrow> vs = []"
    and n: "\<forall>s. map_of ?kvs ''notes'' = Some (JStr s) \<longrightarrow> ns = s"
    and a: "map_of ?kvs ''allergies'' = None \<or> map_of ?kvs ''allergies'' = Some (JArr [])
         \<longrightarrow> as = ''N/A''"
    and m: "\<forall>xs ss. map_of ?kvs ''meds'' = Some (JArr xs) \<and> strs_of xs = Some ss
           \<and> join '', '' ss \<noteq> [] \<longrightarrow> ms = join '', '' ss"
    by (elim exE conjE)
  from v have "vs = []" by simp
  moreover from n have "ns = ''dry cough''" by simp
  moreover from a have "as = ''N/A''" by simp
  moreover from m [THEN spec, of "[JStr ''aspirin'', JStr ''statin'']",
                   THEN spec, of "[''aspirin'', ''statin'']"]
  have "ms = ''aspirin, statin''" by simp
  ultimately have "get_profile_text (stub_env offline busy) (JObj ?kvs)
       = Inr (profile_block [] ''dry cough'' ''N/A'' ''aspirin, statin'')"
    using t by simp
  then show ?thesis using h by (simp add: profile_block_def)
qed

section \<open>The fetcher: label sections and names\<close>

lemma str_contains_here: "str_contains n (n @ s)"
  using str_contains_mid [of n "[]" s] by simp

lemma str_contains_later: "str_contains n s \<Longrightarrow> str_contains n (a @ s)"
  unfolding str_contains_iff
proof -
  assume "\<exists>p s'. s = p @ n @ s'"
  then obtain p s' where "s = p @ n @ s'" by (elim exE)
  then have "a @ s = (a @ p) @ n @ s'" by simp
  then show "\<exists>p s'. a @ s = p @ n @ s'" by (intro exI)
qed

lemma section_text_strings:
  assumes "dict_get_none drug key = JArr (x # xs)" and "strs_of (x # xs) = Some ss"
  shows "get_section_text e drug key = Inr (str_lower e (join '' '' ss))"
  using assms by (simp add: get_section_text_def raising_def)

lemma section_text_placeholder:
  assumes "map_of drug key = None \<or> map_of drug key = Some (JArr [])"
  shows "get_section_text e drug key = Inr NO_INFORMATION"
  using assms by (auto simp: get_section_text_def dict_get_none_def dict_get_def)

lemma label_record_sections:
  assumes "label_record e drug_name (JObj drug) = Inr d"
  shows "get_section_text e drug ''contraindications'' = Inr (contraindications d)"
    and "get_section_text e drug ''warnings_and_precautions'' = Inr (warnings_and_precautions d)"
    and "get_section_text e drug ''drug_interactions'' = Inr (drugInteractions d)"
    and "get_section_text e drug ''adverse_reactions'' = Inr (adverseReactions d)"
  using assms
  by (auto simp: label_record_def raising_def split: sum.splits)

lemma label_record_names:
  assumes "label_record e drug_name (JObj drug) = Inr d"
  shows "\<exists>openfda. dict_get drug ''openfda'' (JObj []) = JObj openfda
      \<and> py_join '', '' (dict_get openfda ''brand_name'' (JArr [JStr ''N/A''])) = Inr (brandName d)
      \<and> py_join '', '' (dict_get openfda ''generic_name'' (JArr [JStr drug_name])) = Inr (genericName d)"
  using assms
  by (auto simp: label_record_def openfda_get_def raising_def split: sum.splits json.splits)

lemma prompt_sections:
  "str_contains (contraindications d) (user_prompt t d)"
  "str_contains (warnings_and_precautions d) (user_prompt t d)"
  "str_contains (drugInteractions d) (user_prompt t d)"
  "str_contains (adverseReactions d) (user_prompt t d)"
  unfolding user_prompt_def
  by ((rule str_contains_here | rule str_contains_later)+)+


text \<open>
  Claim C7. A label section that is a non-empty list of strings is rendered as the
  lower-cased join of its elements with single spaces; a section that is missing or the
  empty list is rendered as exactly "No information listed."; the four rendered sections
  are the four section fields of the record the fetcher returns, and each of them occurs
  in the prompt that the analyzer composes from that record and sends to the model.
\<close>

theorem section_text_rendering:
  "(dict_get_none drug key = JArr (x # xs) \<and> strs_of (x # xs) = Some ss
      \<longrightarrow> get_section_text e drug key = Inr (str_lower e (join '' '' ss)))
   \<and> (map_of drug key = None \<or> map_of drug key = Some (JArr [])
      \<longrightarrow> get_section_text e drug key = Inr ''No information listed.'')
   \<and> (label_record e drug_name (JObj drug) = Inr d
      \<longrightarrow> get_section_text e drug ''contraindications'' = Inr (contraindications d)
        \<and> get_section_text e drug ''warnings_and_precautions'' = Inr (warnings_and_precautions d)
        \<and> get_section_text e drug ''drug_interactions'' = Inr (drugInteractions d)
        \<and> get_section_text e drug ''adverse_reactions'' = Inr (adverseReactions d))
   \<and> str_contains (contraindications d) (user_prompt t d)
   \<and> str_contains (warnings_and_precautions d) (user_prompt t d)
   \<and> str_contains (drugInteractions d) (user_prompt t d)
   \<and> str_contains (adverseReactions d) (user_prompt t d)
   \<and> analyze_with_llm e t d w = attempts e (user_prompt t d) max_retries 1 w"
proof (intro conjI impI)
  assume "dict_get_none drug key = JArr (x # xs) \<and> strs_of (x # xs) = Some ss"
  then show "get_section_text e drug key = Inr (str_lower e (join '' '' ss))"
    by (intro section_text_strings) (elim conjE, assumption)+
next
  assume "map_of drug key = None \<or> map_of drug key = Some (JArr [])"
  then show "get_section_text e drug key = Inr ''No information listed.''"
    using section_text_placeholder [of drug key e] by (simp only: NO_INFORMATION_def)
qed (simp_all only: label_record_sections prompt_sections analyze_with_llm_def)

theorem section_text_rendering_witness:
  "dict_get_none [(''adverse_reactions'', JArr [JStr ''Dizziness'', JStr ''Cough''])]
       ''adverse_reactions'' = JArr [JStr ''Dizziness'', JStr ''Cough'']
   \<and> strs_of [JStr ''Dizziness'', JStr ''Cough''] = Some [''Dizziness'', ''Cough'']
   \<and> map_of [(''adverse_reactions'', JArr [JStr ''Dizziness'', JStr ''Cough''])]
        ''contraindications'' = None
   \<and> get_section_text (stub_env online busy)
        [(''adverse_reactions'', JArr [JStr ''Dizziness'', JStr ''Cough''])] ''adverse_reactions''
       = Inr ''dizziness cough''
   \<and> get_section_text (stub_env online busy)
        [(''adverse_reactions'', JArr [JStr ''Dizziness'', JStr ''Cough''])] ''contraindications''
       = Inr ''No information listed.''
   \<and> str_contains ''No information listed.'' (user_prompt ''profile'' zestril)"
proof -
  let ?drug = "[(''adverse_reactions'', JArr [JStr ''Dizziness'', JStr ''Cough''])]"
  let ?e = "stub_env online busy"
  have h1: "dict_get_none ?drug ''adverse_reactions'' = JArr [JStr ''Dizziness'', JStr ''Cough'']"
    by (simp add: dict_get_none_def dict_get_def)
  have h2: "strs_of [JStr ''Dizziness'', JStr ''Cough''] = Some [''Dizziness'', ''Cough'']"
    by simp
  have h3: "map_of ?drug ''contraindications'' = None" by simp
  have low: "str_lower ?e (join '' '' [''Dizziness'', ''Cough'']) = ''dizziness cough''"
    by (simp add: stub_env_def ascii_lower_def swap_letters_def)
  have w: "warnings_and_precautions zestril = ''No information listed.''"
    by (simp add: zestril_def NO_INFORMATION_def)
  note a = section_text_rendering
    [of ?drug "''adverse_reactions''" "JStr ''Dizziness''" "[JStr ''Cough'']"
        "[''Dizziness'', ''Cough'']" ?e "''Lisinopril''" zestril "''profile''" w0]
  note b = section_text_rendering
    [of ?drug "''contraindications''" "JStr ''Dizziness''" "[JStr ''Cough'']"
        "[''Dizziness'', ''Cough'']" ?e "''Lisinopril''" zestril "''profile''" w0]
  have 1: "get_section_text ?e ?drug ''adverse_reactions'' = Inr ''dizziness cough''"
    using a [THEN conjunct1, THEN mp, OF conjI [OF h1 h2]] by (simp only: low)
  have 2: "get_section_text ?e ?drug ''contraindications'' = Inr ''No information listed.''"
    using b [THEN conjunct2, THEN conjunct1, THEN mp, OF disjI1 [OF h3]] .
  have 3: "str_contains ''No information listed.'' (user_prompt ''profile'' zestril)"
    using a [THEN conjunct2, THEN conjunct2, THEN conjunct2, THEN conjunct2, THEN conjunct1]
    by (simp only: w)
  from h1 h2 h3 1 2 3 show ?thesis by (intro conjI)
qed

text \<open>
  Claim C6, as the code has it. When the fetched label record has no
  \<^verbatim>\<open>openfda.generic_name\<close> entry, the generic name of the returned record is the queried
  drug name; when it has no \<^verbatim>\<open>openfda.brand_name\<close> entry, the brand name of the returned
  record is \<^verbatim>\<open>N/A\<close> (not the queried drug name).
\<close>

theorem fetch_drug_data_name_fallback:
  assumes "requests_get e (calls w) (fda_url e drug_name) = Body (JObj data)"
    and "dict_get_none data ''results'' = JArr (JObj drug # others)"
    and "fst (fetch_drug_data e drug_name w) = Inr (Some d)"
  shows "\<exists>openfda. dict_get drug ''openfda'' (JObj []) = JObj openfda
      \<and> (map_of openfda ''generic_name'' = None \<longrightarrow> genericName d = drug_name)
      \<and> (map_of openfda ''brand_name'' = None \<longrightarrow> brandName d = ''N/A'')"
proof -
  from assms have "map_sum id Some (label_record e drug_name (JObj drug)) = Inr (Some d)"
    by (auto simp: fetch_drug_data_def handle_outcome_def printing_def
        split: if_splits sum.splits option.splits)
  then have "label_record e drug_name (JObj drug) = Inr d"
    by (cases "label_record e drug_name (JObj drug)") simp_all
  from label_record_names [OF this] obtain openfda where
    o: "dict_get drug ''openfda'' (JObj []) = JObj openfda"
    and b: "py_join '', '' (dict_get openfda ''brand_name'' (JArr [JStr ''N/A''])) = Inr (brandName d)"
    and g: "py_join '', '' (dict_get openfda ''generic_name'' (JArr [JStr drug_name])) = Inr (genericName d)"
    by (elim exE conjE)
  from g have "map_of openfda ''generic_name'' = None \<longrightarrow> genericName d = drug_name"
    by (auto simp: dict_get_def)
  moreover from b have "map_of openfda ''brand_name'' = None \<longrightarrow> brandName d = ''N/A''"
    by (auto simp: dict_get_def)
  ultimately show ?thesis using o by (intro exI [of _ openfda] conjI)
qed

lemma nameless_fetch:
  "fst (fetch_drug_data (stub_env nameless busy) ''aspirin'' w0)
     = Inr (Some \<lparr>brandName = ''N/A'', genericName = ''aspirin'',
                  contraindications = ''hypersensitivity to salicylates.'',
                  warnings_and_precautions = ''No information listed.'',
                  drugInteractions = ''No information listed.'',
                  adverseReactions = ''No information listed.''\<rparr>)"
  by code_simp

theorem fetch_drug_data_name_fallback_witness:
  "requests_get (stub_env nameless busy) (calls w0) (fda_url (stub_env nameless busy) ''aspirin'')
     = Body (JObj [(''results'',
          JArr [JObj [(''contraindications'', JArr [JStr ''Hypersensitivity to SALICYLATES.''])]])])
   \<and> (\<exists>d. fst (fetch_drug_data (stub_env nameless busy) ''aspirin'' w0) = Inr (Some d)
          \<and> genericName d = ''aspirin'' \<and> brandName d = ''N/A'')"
proof -
  let ?e = "stub_env nameless busy"
  let ?drug = "[(''contraindications'', JArr [JStr ''Hypersensitivity to SALICYLATES.''])]"
  let ?d = "\<lparr>brandName = ''N/A'', genericName = ''aspirin'',
                  contraindications = ''hypersensitivity to salicylates.'',
                  warnings_and_precautions = ''No information listed.'',
                  drugInteractions = ''No information listed.'',
                  adverseReactions = ''No information listed.''\<rparr>"
  have h1: "requests_get ?e (calls w0) (fda_url ?e ''aspirin'')
      = Body (JObj [(''results'', JArr [JObj ?drug])])"
    by (simp add: stub_env_def nameless_def nameless_label_def)
  have h2: "dict_get_none [(''results'', JArr [JObj ?drug])] ''results'' = JArr (JObj ?drug # [])"
    by (simp add: dict_get_none_def dict_get_def)
  from fetch_drug_data_name_fallback [OF h1 h2 nameless_fetch]
  have "genericName ?d = ''aspirin'' \<and> brandName ?d = ''N/A''"
    by (auto simp: dict_get_def)
  with nameless_fetch h1 show ?thesis by (intro conjI exI [of _ ?d]) simp_all
qed

text \<open>
  Claim C6 as stated fails for the brand name: a label record without names, fetched for
  \<^verbatim>\<open>aspirin\<close>, gives the brand name \<^verbatim>\<open>N/A\<close>.
\<close>

theorem brand_name_fallback_counterexample:
  "requests_get (stub_env nameless busy) (calls w0) (fda_url (stub_env nameless busy) ''aspirin'')
     = Body (JObj [(''results'',
          JArr [JObj [(''contraindications'', JArr [JStr ''Hypersensitivity to SALICYLATES.''])]])])
   \<and> fst (fetch_drug_data (stub_env nameless busy) ''aspirin'' w0)
     = Inr (Some \<lparr>brandName = ''N/A'', genericName = ''aspirin'',
                  contraindications = ''hypersensitivity to salicylates.'',
                  warnings_and_precautions = ''No information listed.'',
                  drugInteractions = ''No information listed.'',
                  adverseReactions = ''No information listed.''\<rparr>)
   \<and> ''N/A'' \<noteq> ''aspirin''"
  using nameless_fetch
  by (simp add: stub_env_def nameless_def nameless_label_def)

section \<open>The batch endpoint\<close>

lemma fetch_drug_data_world: "snd (fetch_drug_data e drug_name w) = tick w"
  by (simp add: fetch_drug_data_def)

lemma entry_report_cases:
  assumes "fst (entry_report e t entry w) = Inr r"
  shows "(fst (fetch_drug_data e (dname entry) w) = Inr None
          \<and> r = \<lparr>report_genericName = dname entry, report_brandName = ''N/A'',
                  drugClass = dclass entry,
                  alerts = JArr [error_alert ''Could not fetch drug data from openFDA.''],
                  fullData = JObj []\<rparr>)
       \<or> (\<exists>d a. fst (fetch_drug_data e (dname entry) w) = Inr (Some d)
             \<and> fst (analyze_with_llm e t d (tick w)) = Inr a
             \<and> r = \<lparr>report_genericName = genericName d, report_brandName = brandName d,
                     drugClass = dclass entry,
                     alerts = a,
                     fullData = drug_data_json d\<rparr>)"
proof (cases "fetch_drug_data e (dname entry) w")
  case (Pair res w1)
  then have w1: "w1 = tick w" using fetch_drug_data_world [of e "dname entry" w] by simp
  show ?thesis
  proof (cases res)
    case (Inl x)
    with Pair assms show ?thesis by (simp add: entry_report_def)
  next
    case (Inr found)
    show ?thesis
    proof (cases found)
      case None
      with Pair Inr assms show ?thesis by (simp add: entry_report_def)
    next
      case (Some d)
      obtain res2 w2 where an: "analyze_with_llm e t d (tick w) = (res2, w2)"
        by (cases "analyze_with_llm e t d (tick w)")
      show ?thesis
      proof (cases res2)
        case (Inl x)
        with Pair Inr Some assms w1 an show ?thesis by (simp add: entry_report_def)
      next
        case analysed: (Inr a)
        with Pair Inr Some assms w1 an show ?thesis by (simp add: entry_report_def)
      qed
    qed
  qed
qed


lemma report_loop_ok:
  assumes "report_loop e t ds acc w = (Ok200 rs, w')"
  shows "\<exists>new. rs = acc @ new
           \<and> list_all2 (\<lambda>entry r. \<exists>wi. fst (entry_report e t entry wi) = Inr r) ds new"
  using assms
proof (induction ds arbitrary: acc w)
  case Nil
  then show ?case by simp
next
  case (Cons entry rest)
  obtain res w1 where step: "entry_report e t entry w = (res, w1)"
    by (cases "entry_report e t entry w")
  show ?case
  proof (cases res)
    case (Inl x)
    with step Cons.prems show ?thesis by simp
  next
    case (Inr r)
    with step Cons.prems have "report_loop e t rest (acc @ [r]) w1 = (Ok200 rs, w')" by simp
    from Cons.IH [OF this] obtain new where
      new: "rs = (acc @ [r]) @ new"
        "list_all2 (\<lambda>entry r. \<exists>wi. fst (entry_report e t entry wi) = Inr r) rest new"
      by (elim exE conjE)
    from step Inr have "\<exists>wi. fst (entry_report e t entry wi) = Inr r"
      by (intro exI [of _ w]) simp
    with new have "rs = acc @ (r # new)
        \<and> list_all2 (\<lambda>entry r. \<exists>wi. fst (entry_report e t entry wi) = Inr r) (entry # rest) (r # new)"
      by simp
    then show ?thesis by (rule exI)
  qed
qed

lemma loop_worlds_length: "length (loop_worlds e t ds w) = length ds"
  by (induction ds arbitrary: w) simp_all

lemma report_loop_worlds:
  assumes "report_loop e t ds acc w = (Ok200 rs, w')"
  shows "\<exists>new. rs = acc @ new
           \<and> list_all2 (\<lambda>(entry, wi) r. fst (entry_report e t entry wi) = Inr r)
                (zip ds (loop_worlds e t ds w)) new"
  using assms
proof (induction ds arbitrary: acc w)
  case Nil
  then show ?case by simp
next
  case (Cons entry rest)
  obtain res w1 where step: "entry_report e t entry w = (res, w1)"
    by (cases "entry_report e t entry w")
  show ?case
  proof (cases res)
    case (Inl x)
    with step Cons.prems show ?thesis by simp
  next
    case (Inr r)
    with step Cons.prems have "report_loop e t rest (acc @ [r]) w1 = (Ok200 rs, w')" by simp
    from Cons.IH [OF this] obtain new where
      new: "rs = (acc @ [r]) @ new"
        "list_all2 (\<lambda>(entry, wi) r. fst (entry_report e t entry wi) = Inr r)
           (zip rest (loop_worlds e t rest w1)) new"
      by (elim exE conjE)
    with step Inr have "rs = acc @ (r # new)
        \<and> list_all2 (\<lambda>(entry, wi) r. fst (entry_report e t entry wi) = Inr r)
            (zip (entry # rest) (loop_worlds e t (entry # rest) w)) (r # new)"
      by simp
    then show ?thesis by (rule exI)
  qed
qed







lemma online_fetch:
  "fst (fetch_drug_data (stub_env online llm) n wi)
     = handle_outcome (stub_env online llm) n (online 0 (fda_url (stub_env online llm) n))"
  by (simp add: fetch_drug_data_def stub_env_def online_def)


lemma profile1_ok: "patient_profile profile1" "profile1 \<noteq> JObj []"
  by (simp_all add: profile1_def patient_profile_def opt_text_def opt_str_list_def)



section \<open>Reports for a drug that cannot be resolved\<close>

lemma generate_report_ok:
  assumes "fst (generate_report e profile w) = Ok200 rs"
  shows "\<exists>t w'. get_profile_text e profile = Inr t
           \<and> report_loop e t COMMON_BP_DRUGS [] w = (Ok200 rs, w')"
proof (cases "get_profile_text e profile")
  case (Inl x)
  with assms show ?thesis by (simp add: generate_report_def split: if_splits)
next
  case (Inr t)
  with assms have "fst (report_loop e t COMMON_BP_DRUGS [] w) = Ok200 rs"
    by (simp add: generate_report_def split: if_splits)
  then have "report_loop e t COMMON_BP_DRUGS [] w
      = (Ok200 rs, snd (report_loop e t COMMON_BP_DRUGS [] w))"
    by (metis prod.collapse)
  with Inr show ?thesis by (intro exI conjI)
qed

lemma check_drug_cases:
  assumes "fst (check_drug e profile dn w) = Ok200 r"
  shows "\<exists>drug_name t. dn = JStr drug_name \<and> get_profile_text e profile = Inr t
      \<and> ((fst (fetch_drug_data e drug_name w) = Inr None
           \<and> r = \<lparr>report_genericName = drug_name, report_brandName = ''N/A'',
                   drugClass = ''Custom Search'',
                   alerts = JArr [error_alert
                     (''Could not fetch drug data for '' @ squote @ drug_name @ squote
                      @ ''. Check spelling.'')],
                   fullData = JObj []\<rparr>)
        \<or> (\<exists>d a. fst (fetch_drug_data e drug_name w) = Inr (Some d)
              \<and> fst (analyze_with_llm e t d (tick w)) = Inr a
              \<and> r = \<lparr>report_genericName = genericName d, report_brandName = brandName d,
                      drugClass = ''Custom Search'',
                      alerts = a,
                      fullData = drug_data_json d\<rparr>))"
proof (cases "get_profile_text e profile")
  case (Inl x)
  with assms show ?thesis by (simp add: check_drug_def)
next
  case t: (Inr t)
  show ?thesis
  proof (cases dn)
    case (JStr drug_name)
    obtain res w1 where f: "fetch_drug_data e drug_name w = (res, w1)"
      by (cases "fetch_drug_data e drug_name w")
    then have w1: "w1 = tick w" using fetch_drug_data_world [of e drug_name w] by simp
    show ?thesis
    proof (cases res)
      case (Inl x)
      with assms t JStr f show ?thesis by (simp add: check_drug_def)
    next
      case (Inr found)
      show ?thesis
      proof (cases found)
        case None
        with assms t JStr f Inr show ?thesis by (simp add: check_drug_def)
      next
        case (Some d)
        obtain res2 w2 where an: "analyze_with_llm e t d (tick w) = (res2, w2)"
          by (cases "analyze_with_llm e t d (tick w)")
        show ?thesis
        proof (cases res2)
          case (Inl x)
          with assms t JStr f Inr Some w1 an show ?thesis by (simp add: check_drug_def)
        next
          case analysed: (Inr a)
          with assms t JStr f Inr Some w1 an show ?thesis by (simp add: check_drug_def)
        qed
      qed
    qed
  qed (use assms t in \<open>simp_all add: check_drug_def\<close>)
qed

lemma check_single_drug_cases:
  assumes "fst (check_single_drug e data w) = Ok200 r"
  shows "\<exists>profile dn. subscript_key data ''profile'' = Inr profile
      \<and> subscript_key data ''drugName'' = Inr dn
      \<and> fst (check_drug e profile dn w) = Ok200 r"
  using assms
  by (simp add: check_single_drug_def split: if_splits sum.splits bool.splits)

lemma check_single_drug_obj:
  assumes "map_of request ''profile'' = Some profile"
    and "map_of request ''drugName'' = Some dn"
  shows "check_single_drug e (JObj request) w = check_drug e profile dn w"
proof -
  from assms(1) have ne: "request \<noteq> []" by auto
  from assms(1) have p: "''profile'' \<in> set (map fst request)"
    by (metis map_of_eq_None_iff option.distinct(1) set_map)
  from assms(2) have d: "''drugName'' \<in> set (map fst request)"
    by (metis map_of_eq_None_iff option.distinct(1) set_map)
  show ?thesis
    unfolding check_single_drug_def using ne p d assms by simp
qed

lemma check_drug_absent:
  assumes "get_profile_text e profile = Inr t"
    and "fst (fetch_drug_data e drug_name w) = Inr None"
  shows "fst (check_drug e profile (JStr drug_name) w)
     = Ok200 \<lparr>report_genericName = drug_name, report_brandName = ''N/A'',
              drugClass = ''Custom Search'',
              alerts = JArr [error_alert
                (''Could not fetch drug data for '' @ squote @ drug_name @ squote
                 @ ''. Check spelling.'')],
              fullData = JObj []\<rparr>"
proof -
  obtain res w1 where f: "fetch_drug_data e drug_name w = (res, w1)"
    by (cases "fetch_drug_data e drug_name w")
  with assms(2) have "res = Inr None" by simp
  with f assms(1) show ?thesis by (simp add: check_drug_def)
qed

lemma str_contains_quoted: "str_contains n (a @ b @ n @ c)"
  by (rule str_contains_later) (rule str_contains_mid)

text \<open>
  Claim C1, as the code has it. For a drug name that the lookup service cannot resolve
  (every fetch of it is absent) and a patient profile, the report of either endpoint has
  one alert, of type ERROR, and the empty object as \<^verbatim>\<open>fullData\<close>. In the report of the
  single-drug endpoint the finding contains the drug name. In the report of the batch
  endpoint, at the position of the catalog entry with that name, the finding is the fixed
  text "Could not fetch drug data from openFDA."; the drug name is in \<^verbatim>\<open>genericName\<close>.
\<close>

theorem unresolved_drug_report:
  assumes "\<forall>wi. fst (fetch_drug_data e drug_name wi) = Inr None"
    and "patient_profile profile"
  shows "(map_of request ''profile'' = Some profile
          \<and> map_of request ''drugName'' = Some (JStr drug_name)
        \<longrightarrow> (\<exists>finding.
              fst (check_single_drug e (JObj request) w)
                = Ok200 \<lparr>report_genericName = drug_name, report_brandName = ''N/A'',
                         drugClass = ''Custom Search'',
                         alerts = JArr [JObj [(''type'', JStr ERROR_TYPE),
                                              (''finding'', JStr finding)]],
                         fullData = JObj []\<rparr>
              \<and> str_contains drug_name finding))
    \<and> (\<forall>rs i. fst (generate_report e profile w) = Ok200 rs
            \<and> i < length COMMON_BP_DRUGS \<and> dname (COMMON_BP_DRUGS ! i) = drug_name
        \<longrightarrow> rs ! i
              = \<lparr>report_genericName = drug_name, report_brandName = ''N/A'',
                 drugClass = dclass (COMMON_BP_DRUGS ! i),
                 alerts = JArr [JObj [(''type'', JStr ERROR_TYPE),
                                      (''finding'', JStr ''Could not fetch drug data from openFDA.'')]],
                 fullData = JObj []\<rparr>)"
proof (intro conjI allI impI)
  assume req: "map_of request ''profile'' = Some profile
          \<and> map_of request ''drugName'' = Some (JStr drug_name)"
  from patient_profile_ok [OF assms(2)] obtain t where t: "get_profile_text e profile = Inr t"
    by (elim exE allE [of _ e])
  from assms(1) have absent: "fst (fetch_drug_data e drug_name w) = Inr None" by (rule spec)
  let ?finding = "''Could not fetch drug data for '' @ squote @ drug_name @ squote
                 @ ''. Check spelling.''"
  from req have "check_single_drug e (JObj request) w = check_drug e profile (JStr drug_name) w"
    by (intro check_single_drug_obj) (elim conjE, assumption)+
  with check_drug_absent [OF t absent]
  have "fst (check_single_drug e (JObj request) w)
                = Ok200 \<lparr>report_genericName = drug_name, report_brandName = ''N/A'',
                         drugClass = ''Custom Search'',
                         alerts = JArr [JObj [(''type'', JStr ERROR_TYPE),
                                              (''finding'', JStr ?finding)]],
                         fullData = JObj []\<rparr>"
    by (simp only: error_alert_def)
  moreover have "str_contains drug_name ?finding" by (rule str_contains_quoted)
  ultimately show "\<exists>finding.
              fst (check_single_drug e (JObj request) w)
                = Ok200 \<lparr>report_genericName = drug_name, report_brandName = ''N/A'',
                         drugClass = ''Custom Search'',
                         alerts = JArr [JObj [(''type'', JStr ERROR_TYPE),
                                              (''finding'', JStr finding)]],
                         fullData = JObj []\<rparr>
              \<and> str_contains drug_name finding"
    by (intro exI [of _ ?finding] conjI)
next
  fix rs i
  assume a: "fst (generate_report e profile w) = Ok200 rs
            \<and> i < length COMMON_BP_DRUGS \<and> dname (COMMON_BP_DRUGS ! i) = drug_name"
  then have run: "fst (generate_report e profile w) = Ok200 rs"
    and i: "i < length COMMON_BP_DRUGS" and n: "dname (COMMON_BP_DRUGS ! i) = drug_name"
    by simp_all
  from generate_report_ok [OF run] obtain t w' where
    "report_loop e t COMMON_BP_DRUGS [] w = (Ok200 rs, w')" by (elim exE conjE)
  from report_loop_ok [OF this] have
    "list_all2 (\<lambda>entry r. \<exists>wi. fst (entry_report e t entry wi) = Inr r) COMMON_BP_DRUGS rs"
    by simp
  from list_all2_nthD [OF this i] obtain wi where
    "fst (entry_report e t (COMMON_BP_DRUGS ! i) wi) = Inr (rs ! i)" by (elim exE)
  from entry_report_cases [OF this] assms(1) n
  show "rs ! i
              = \<lparr>report_genericName = drug_name, report_brandName = ''N/A'',
                 drugClass = dclass (COMMON_BP_DRUGS ! i),
                 alerts = JArr [JObj [(''type'', JStr ERROR_TYPE),
                                      (''finding'', JStr ''Could not fetch drug data from openFDA.'')]],
                 fullData = JObj []\<rparr>"
    by (auto simp: error_alert_def)
qed


lemma losartan_unknown:
  "handle_outcome (stub_env online busy) ''Losartan''
     (online 0 (fda_url (stub_env online busy) ''Losartan'')) = Inr None"
  by code_simp

lemma busy_batch:
  "fst (generate_report (stub_env online busy) profile1 w0)
     = Ok200 (case fst (generate_report (stub_env online busy) profile1 w0) of
                Ok200 rs \<Rightarrow> rs | _ \<Rightarrow> [])"
  by code_simp

theorem unresolved_drug_report_witness:
  "patient_profile profile1
   \<and> fst (fetch_drug_data (stub_env online busy) ''Losartan'' w0) = Inr None
   \<and> (\<exists>finding.
         fst (check_single_drug (stub_env online busy)
                (JObj [(''profile'', profile1), (''drugName'', JStr ''Losartan'')]) w0)
           = Ok200 \<lparr>report_genericName = ''Losartan'', report_brandName = ''N/A'',
                    drugClass = ''Custom Search'',
                    alerts = JArr [JObj [(''type'', JStr ERROR_TYPE),
                                         (''finding'', JStr finding)]],
                    fullData = JObj []\<rparr>
         \<and> str_contains ''Losartan'' finding)
   \<and> (case fst (generate_report (stub_env online busy) profile1 w0) of
         Ok200 rs \<Rightarrow> rs | _ \<Rightarrow> []) ! 1
       = \<lparr>report_genericName = ''Losartan'', report_brandName = ''N/A'',
          drugClass = ''ARB'',
          alerts = JArr [JObj [(''type'', JStr ERROR_TYPE),
                               (''finding'', JStr ''Could not fetch drug data from openFDA.'')]],
          fullData = JObj []\<rparr>"
proof -
  let ?e = "stub_env online busy"
  let ?request = "[(''profile'', profile1), (''drugName'', JStr ''Losartan'')]"
  let ?rs = "case fst (generate_report ?e profile1 w0) of Ok200 rs \<Rightarrow> rs | _ \<Rightarrow> []"
  have h1: "\<forall>wi. fst (fetch_drug_data ?e ''Losartan'' wi) = Inr None"
    by (simp only: online_fetch losartan_unknown simp_thms)
  note inst = unresolved_drug_report [OF h1 profile1_ok(1), of ?request w0]
  have req: "map_of ?request ''profile'' = Some profile1
      \<and> map_of ?request ''drugName'' = Some (JStr ''Losartan'')"
    by simp
  have entry: "fst (generate_report ?e profile1 w0) = Ok200 ?rs
      \<and> 1 < length COMMON_BP_DRUGS \<and> dname (COMMON_BP_DRUGS ! 1) = ''Losartan''"
    using busy_batch by (simp add: COMMON_BP_DRUGS_def)
  have cls: "dclass (COMMON_BP_DRUGS ! 1) = ''ARB''" by (simp add: COMMON_BP_DRUGS_def)
  from inst [THEN conjunct1, THEN mp, OF req]
  have single: "\<exists>finding.
         fst (check_single_drug ?e (JObj ?request) w0)
           = Ok200 \<lparr>report_genericName = ''Losartan'', report_brandName = ''N/A'',
                    drugClass = ''Custom Search'',
                    alerts = JArr [JObj [(''type'', JStr ERROR_TYPE),
                                         (''finding'', JStr finding)]],
                    fullData = JObj []\<rparr>
         \<and> str_contains ''Losartan'' finding" .
  from inst [THEN conjunct2, THEN spec, THEN spec, THEN mp, OF entry]
  have batch: "?rs ! 1
       = \<lparr>report_genericName = ''Losartan'', report_brandName = ''N/A'',
          drugClass = ''ARB'',
          alerts = JArr [JObj [(''type'', JStr ERROR_TYPE),
                               (''finding'', JStr ''Could not fetch drug data from openFDA.'')]],
          fullData = JObj []\<rparr>"
    by (simp only: cls)
  from h1 have "fst (fetch_drug_data ?e ''Losartan'' w0) = Inr None" by (rule spec)
  with profile1_ok(1) single batch show ?thesis by (intro conjI)
qed

text \<open>
  Claim C1 as stated fails for the batch endpoint: with the lookup service down, the
  finding of the report for Lisinopril (as for the other four) does not contain the name.
\<close>

theorem batch_finding_counterexample:
  "fst (fetch_drug_data (stub_env offline busy) ''Lisinopril'' w0) = Inr None
   \<and> map_response (map report_genericName) (fst (generate_report (stub_env offline busy) profile1 w0))
       = Ok200 [''Lisinopril'', ''Losartan'', ''Amlodipine'', ''Metoprolol'', ''Hydrochlorothiazide'']
   \<and> map_response (map alerts) (fst (generate_report (stub_env offline busy) profile1 w0))
       = Ok200 (replicate 5
           (JArr [JObj [(''type'', JStr ERROR_TYPE),
                        (''finding'', JStr ''Could not fetch drug data from openFDA.'')]]))
   \<and> \<not> str_contains ''Lisinopril'' ''Could not fetch drug data from openFDA.''"
  by code_simp

section \<open>The shape of every report\<close>

lemma shape_absent:
  assumes "fst (fetch_drug_data e drug_name wi) = Inr None"
    and "fullData r = JObj []"
    and "alerts r = JArr [error_alert finding]"
  shows "report_shape e t drug_name wi r"
proof -
  from assms(3) have "\<exists>finding. alerts r = JArr [JObj [(''type'', JStr ERROR_TYPE),
                                                (''finding'', JStr finding)]]"
    by (intro exI [of _ finding]) (simp add: error_alert_def)
  with assms(1,2) have "fst (fetch_drug_data e drug_name wi) = Inr None
           \<and> fullData r = JObj []
           \<and> (\<exists>finding. alerts r = JArr [JObj [(''type'', JStr ERROR_TYPE),
                                                (''finding'', JStr finding)]])"
    by (intro conjI)
  moreover from assms(2) have "fullData r \<noteq> JNull" by simp
  ultimately show ?thesis by simp
qed

lemma shape_found:
  assumes "fst (fetch_drug_data e drug_name wi) = Inr (Some d)"
    and "fullData r = drug_data_json d"
    and "fst (analyze_with_llm e t d (tick wi)) = Inr (alerts r)"
  shows "report_shape e t drug_name wi r"
proof -
  from assms(2) have ne: "fullData r \<noteq> JObj []" "fullData r \<noteq> JNull"
    by (simp_all add: drug_data_json_def)
  with assms have "fst (fetch_drug_data e drug_name wi) = Inr (Some d)
              \<and> fullData r = drug_data_json d
              \<and> fullData r \<noteq> JObj []
              \<and> fst (analyze_with_llm e t d (tick wi)) = Inr (alerts r)"
    by (intro conjI)
  then have "\<exists>d. fst (fetch_drug_data e drug_name wi) = Inr (Some d)
              \<and> fullData r = drug_data_json d
              \<and> fullData r \<noteq> JObj []
              \<and> fst (analyze_with_llm e t d (tick wi)) = Inr (alerts r)"
    by (rule exI)
  with ne(2) show ?thesis by simp
qed

lemma entry_shape:
  assumes "fst (entry_report e t entry wi) = Inr r"
  shows "report_shape e t (dname entry) wi r"
  using entry_report_cases [OF assms]
proof (elim disjE exE conjE)
  assume "fst (fetch_drug_data e (dname entry) wi) = Inr None"
    and r: "r = \<lparr>report_genericName = dname entry, report_brandName = ''N/A'',
                  drugClass = dclass entry,
                  alerts = JArr [error_alert ''Could not fetch drug data from openFDA.''],
                  fullData = JObj []\<rparr>"
  then show ?thesis by (intro shape_absent) (assumption, simp_all)
next
  fix d a
  assume "fst (fetch_drug_data e (dname entry) wi) = Inr (Some d)"
    and "fst (analyze_with_llm e t d (tick wi)) = Inr a"
    and r: "r = \<lparr>report_genericName = genericName d, report_brandName = brandName d,
                     drugClass = dclass entry,
                     alerts = a,
                     fullData = drug_data_json d\<rparr>"
  then show ?thesis by (intro shape_found [of e "dname entry" wi d r t]) simp_all
qed

lemma check_shape:
  assumes "fst (check_drug e profile dn w) = Ok200 r"
  shows "\<exists>drug_name t. dn = JStr drug_name \<and> get_profile_text e profile = Inr t
           \<and> report_shape e t drug_name w r"
  using check_drug_cases [OF assms]
proof (elim disjE exE conjE)
  fix drug_name t
  assume dn: "dn = JStr drug_name" and t: "get_profile_text e profile = Inr t"
    and "fst (fetch_drug_data e drug_name w) = Inr None"
    and r: "r = \<lparr>report_genericName = drug_name, report_brandName = ''N/A'',
                   drugClass = ''Custom Search'',
                   alerts = JArr [error_alert
                     (''Could not fetch drug data for '' @ squote @ drug_name @ squote
                      @ ''. Check spelling.'')],
                   fullData = JObj []\<rparr>"
  then have sh: "report_shape e t drug_name w r"
    by (intro shape_absent) (assumption, simp_all)
  have "dn = JStr drug_name \<and> get_profile_text e profile = Inr t
           \<and> report_shape e t drug_name w r"
    by (rule conjI [OF dn conjI [OF t sh]])
  then show ?thesis by (intro exI)
next
  fix drug_name t d a
  assume dn: "dn = JStr drug_name" and t: "get_profile_text e profile = Inr t"
    and "fst (fetch_drug_data e drug_name w) = Inr (Some d)"
    and "fst (analyze_with_llm e t d (tick w)) = Inr a"
    and r: "r = \<lparr>report_genericName = genericName d, report_brandName = brandName d,
                      drugClass = ''Custom Search'',
                      alerts = a,
                      fullData = drug_data_json d\<rparr>"
  then have sh: "report_shape e t drug_name w r"
    by (intro shape_found [of e drug_name w d r t]) simp_all
  have "dn = JStr drug_name \<and> get_profile_text e profile = Inr t
           \<and> report_shape e t drug_name w r"
    by (rule conjI [OF dn conjI [OF t sh]])
  then show ?thesis by (intro exI)
qed

text \<open>
  Claim C4, as the code has it. Every report that either endpoint produces (for the
  requested drug, or for a catalog entry when the loop reached it) has the empty object
  as \<^verbatim>\<open>fullData\<close> exactly when the fetch of its drug was absent, and never \<^verbatim>\<open>null\<close>:
  otherwise \<^verbatim>\<open>fullData\<close> is the fetched record, which is not the empty object. Its alerts
  are a list of exactly one ERROR alert when the fetch was absent, and otherwise exactly
  the value that the analyzer returned for the fetched record and the text of the
  profile, called right after the fetch; that value is not checked to hold an alert.
\<close>

theorem report_alerts_and_fullData:
  "(fst (check_single_drug e data w) = Ok200 r
      \<longrightarrow> (\<exists>profile drug_name t.
             subscript_key data ''profile'' = Inr profile
             \<and> subscript_key data ''drugName'' = Inr (JStr drug_name)
             \<and> get_profile_text e profile = Inr t
             \<and> report_shape e t drug_name w r))
   \<and> (fst (generate_report e profile w) = Ok200 rs
      \<longrightarrow> (\<exists>t. get_profile_text e profile = Inr t
             \<and> list_all2 (\<lambda>(entry, wi) r. report_shape e t (dname entry) wi r)
                  (zip COMMON_BP_DRUGS (loop_worlds e t COMMON_BP_DRUGS w)) rs))"
proof (rule conjI)
  show "fst (check_single_drug e data w) = Ok200 r
      \<longrightarrow> (\<exists>profile drug_name t.
             subscript_key data ''profile'' = Inr profile
             \<and> subscript_key data ''drugName'' = Inr (JStr drug_name)
             \<and> get_profile_text e profile = Inr t
             \<and> report_shape e t drug_name w r)"
  proof (rule impI)
    assume "fst (check_single_drug e data w) = Ok200 r"
    from check_single_drug_cases [OF this] obtain p dn where
      p: "subscript_key data ''profile'' = Inr p"
      and dn: "subscript_key data ''drugName'' = Inr dn"
      and "fst (check_drug e p dn w) = Ok200 r" by (elim exE conjE)
    from check_shape [OF this(3)] obtain drug_name t where
      sh: "dn = JStr drug_name \<and> get_profile_text e p = Inr t
           \<and> report_shape e t drug_name w r"
      by (elim exE)
    from dn sh [THEN conjunct1]
    have dn1: "subscript_key data ''drugName'' = Inr (JStr drug_name)" by simp
    have "subscript_key data ''profile'' = Inr p
             \<and> subscript_key data ''drugName'' = Inr (JStr drug_name)
             \<and> get_profile_text e p = Inr t
             \<and> report_shape e t drug_name w r"
      by (rule conjI [OF p conjI [OF dn1 sh [THEN conjunct2]]])
    then show "\<exists>profile drug_name t.
             subscript_key data ''profile'' = Inr profile
             \<and> subscript_key data ''drugName'' = Inr (JStr drug_name)
             \<and> get_profile_text e profile = Inr t
             \<and> report_shape e t drug_name w r"
      by (intro exI)
  qed
next
  show "fst (generate_report e profile w) = Ok200 rs
      \<longrightarrow> (\<exists>t. get_profile_text e profile = Inr t
             \<and> list_all2 (\<lambda>(entry, wi) r. report_shape e t (dname entry) wi r)
                  (zip COMMON_BP_DRUGS (loop_worlds e t COMMON_BP_DRUGS w)) rs)"
  proof (rule impI)
    assume run: "fst (generate_report e profile w) = Ok200 rs"
    from generate_report_ok [OF run] obtain t w' where
      t: "get_profile_text e profile = Inr t"
      and "report_loop e t COMMON_BP_DRUGS [] w = (Ok200 rs, w')" by (elim exE conjE)
    from report_loop_worlds [OF this(2)] have
      "list_all2 (\<lambda>(entry, wi) r. fst (entry_report e t entry wi) = Inr r)
         (zip COMMON_BP_DRUGS (loop_worlds e t COMMON_BP_DRUGS w)) rs"
      by simp
    then have "list_all2 (\<lambda>(entry, wi) r. report_shape e t (dname entry) wi r)
         (zip COMMON_BP_DRUGS (loop_worlds e t COMMON_BP_DRUGS w)) rs"
    proof (rule list_all2_mono)
      fix x r'
      assume a: "(case x of (entry, wi) \<Rightarrow> \<lambda>r. fst (entry_report e t entry wi) = Inr r) r'"
      obtain entry wi where x: "x = (entry, wi)" by (cases x)
      with a have "fst (entry_report e t entry wi) = Inr r'" by simp
      from entry_shape [OF this] x
      show "(case x of (entry, wi) \<Rightarrow> \<lambda>r. report_shape e t (dname entry) wi r) r'"
        by simp
    qed
    from conjI [OF t this]
    show "\<exists>t. get_profile_text e profile = Inr t
             \<and> list_all2 (\<lambda>(entry, wi) r. report_shape e t (dname entry) wi r)
                  (zip COMMON_BP_DRUGS (loop_worlds e t COMMON_BP_DRUGS w)) rs"
      by (rule exI)
  qed
qed

lemma quiet_single:
  "fst (check_single_drug (stub_env online empty_answer)
         (JObj [(''profile'', profile1), (''drugName'', JStr ''lisinopril'')]) w0)
     = Ok200 \<lparr>report_genericName = ''LISINOPRIL'', report_brandName = ''Zestril'',
              drugClass = ''Custom Search'',
              alerts = JArr [],
              fullData = drug_data_json zestril\<rparr>"
  by code_simp

lemma lisinopril_fetch:
  "fst (fetch_drug_data (stub_env online empty_answer) ''lisinopril'' w0) = Inr (Some zestril)"
  by code_simp

theorem report_alerts_and_fullData_witness:
  "fst (check_single_drug (stub_env online empty_answer)
         (JObj [(''profile'', profile1), (''drugName'', JStr ''lisinopril'')]) w0)
     = Ok200 \<lparr>report_genericName = ''LISINOPRIL'', report_brandName = ''Zestril'',
              drugClass = ''Custom Search'',
              alerts = JArr [],
              fullData = drug_data_json zestril\<rparr>
   \<and> fst (fetch_drug_data (stub_env online empty_answer) ''lisinopril'' w0) = Inr (Some zestril)
   \<and> (\<exists>t. get_profile_text (stub_env online empty_answer) profile1 = Inr t
          \<and> fst (analyze_with_llm (stub_env online empty_answer) t zestril (tick w0))
              = Inr (JArr []))"
proof -
  let ?e = "stub_env online empty_answer"
  let ?data = "JObj [(''profile'', profile1), (''drugName'', JStr ''lisinopril'')]"
  let ?r = "\<lparr>report_genericName = ''LISINOPRIL'', report_brandName = ''Zestril'',
              drugClass = ''Custom Search'',
              alerts = JArr [],
              fullData = drug_data_json zestril\<rparr>"
  from report_alerts_and_fullData [of ?e ?data w0 ?r, THEN conjunct1, THEN mp, OF quiet_single]
  obtain p drug_name t where
    p: "subscript_key ?data ''profile'' = Inr p"
    and dn: "subscript_key ?data ''drugName'' = Inr (JStr drug_name)"
    and t: "get_profile_text ?e p = Inr t"
    and sh: "(fst (fetch_drug_data ?e drug_name w0) = Inr None
          \<and> fullData ?r = JObj []
          \<and> (\<exists>finding. alerts ?r = JArr [JObj [(''type'', JStr ERROR_TYPE),
                                                (''finding'', JStr finding)]]))
        \<or> (\<exists>d. fst (fetch_drug_data ?e drug_name w0) = Inr (Some d)
              \<and> fullData ?r = drug_data_json d
              \<and> fullData ?r \<noteq> JObj []
              \<and> fst (analyze_with_llm ?e t d (tick w0)) = Inr (alerts ?r))"
    by (elim exE conjE)
  from p have p1: "p = profile1" by simp
  from dn have n: "drug_name = ''lisinopril''" by simp
  from sh lisinopril_fetch
  have "fst (analyze_with_llm ?e t zestril (tick w0)) = Inr (JArr [])"
    unfolding n by auto
  with t p1 have "\<exists>t. get_profile_text ?e profile1 = Inr t
          \<and> fst (analyze_with_llm ?e t zestril (tick w0)) = Inr (JArr [])"
    by (intro exI [of _ t]) simp
  with quiet_single lisinopril_fetch show ?thesis by (intro conjI)
qed

text \<open>
  Claim C4 as stated fails where the model answers with the empty array: the report for
  Lisinopril then has no alert.
\<close>

theorem empty_alerts_counterexample:
  "map_response alerts
     (fst (check_single_drug (stub_env online empty_answer)
            (JObj [(''profile'', profile1), (''drugName'', JStr ''lisinopril'')]) w0))
     = Ok200 (JArr [])"
  by code_simp

section \<open>Determinism of the single-drug endpoint\<close>

lemma fetch_det:
  assumes "\<forall>k k' url. requests_get e k url = requests_get e k' url"
  shows "fst (fetch_drug_data e drug_name w) = fst (fetch_drug_data e drug_name w')"
proof -
  from assms have "requests_get e (calls w) (fda_url e drug_name)
      = requests_get e (calls w') (fda_url e drug_name)"
    by (elim allE)
  then show ?thesis by (simp add: fetch_drug_data_def)
qed

lemma retry_loop_det:
  assumes "\<forall>k k' prompt. generate_content e k prompt = generate_content e k' prompt"
  shows "fst (retry_loop e p attempt response n delay w)
       = fst (retry_loop e p attempt response n delay w')"
proof (induction n arbitrary: attempt response delay w w')
  case 0
  show ?case by simp
next
  case (Suc n)
  from assms have g: "generate_content e (calls w) p = generate_content e (calls w') p"
    by (elim allE)
  then have same: "try_generate e p (calls w) = try_generate e p (calls w')"
    by (simp add: try_generate_def)
  let ?response1 = "bound_response response (generate_content e (calls w') p)"
  from Suc.IH [of "attempt + 1" ?response1 "delay * 2"
                  "sleep delay (tick w)" "sleep delay (tick w')"]
  have ih: "fst (retry_loop e p (Suc attempt) ?response1 n (delay * 2) (sleep delay (tick w)))
          = fst (retry_loop e p (Suc attempt) ?response1 n (delay * 2) (sleep delay (tick w')))"
    by simp
  show ?case
    by (simp add: g same ih Let_def split: sum.splits option.splits)
qed

lemma check_drug_det:
  assumes "\<forall>k k' url. requests_get e k url = requests_get e k' url"
    and "\<forall>k k' prompt. generate_content e k prompt = generate_content e k' prompt"
  shows "fst (check_drug e profile dn w) = fst (check_drug e profile dn w')"
proof (cases "get_profile_text e profile")
  case (Inl x)
  then show ?thesis by (simp add: check_drug_def)
next
  case t: (Inr t)
  show ?thesis
  proof (cases dn)
    case (JStr drug_name)
    obtain res where f: "fetch_drug_data e drug_name w = (res, tick w)"
      using fetch_drug_data_world [of e drug_name w]
      by (cases "fetch_drug_data e drug_name w") simp
    with fetch_det [OF assms(1), of drug_name w w']
    have f': "fetch_drug_data e drug_name w' = (res, tick w')"
      using fetch_drug_data_world [of e drug_name w']
      by (cases "fetch_drug_data e drug_name w'") simp
    show ?thesis
    proof (cases res)
      case (Inl x)
      with t JStr f f' show ?thesis by (simp add: check_drug_def)
    next
      case (Inr found)
      show ?thesis
      proof (cases found)
        case None
        with t JStr f f' Inr show ?thesis by (simp add: check_drug_def)
      next
        case (Some d)
        from retry_loop_det [OF assms(2), of "user_prompt t d" 0 None max_retries 1
                                "tick w" "tick w'"]
        have "fst (analyze_with_llm e t d (tick w)) = fst (analyze_with_llm e t d (tick w'))"
          by (simp only: analyze_with_llm_def attempts_def)
        with t JStr f f' Inr Some show ?thesis
          by (auto simp: check_drug_def split: prod.splits sum.splits)
      qed
    qed
  qed (use t in \<open>simp_all add: check_drug_def\<close>)
qed

text \<open>
  Claim C9. When the lookup service and the model service are deterministic (what they
  answer depends on the request alone, not on how many calls were made before), the
  single-drug endpoint answers the same request with the same response in every state of
  the world; in particular a second invocation, made in the state that the first one has
  left, produces the identical report.
\<close>

theorem check_single_drug_deterministic:
  assumes "\<forall>k k' url. requests_get e k url = requests_get e k' url"
    and "\<forall>k k' prompt. generate_content e k prompt = generate_content e k' prompt"
  shows "fst (check_single_drug e data w') = fst (check_single_drug e data w)
     \<and> fst (check_single_drug e data (snd (check_single_drug e data w)))
         = fst (check_single_drug e data w)"
proof -
  have "fst (check_single_drug e data u) = fst (check_single_drug e data w)" for u
    using check_drug_det [OF assms, of _ _ u w]
    by (simp add: check_single_drug_def split: sum.splits bool.splits)
  then show ?thesis by (intro conjI)
qed

theorem check_single_drug_deterministic_witness:
  "(\<forall>k k' url. requests_get (stub_env online busy) k url
                 = requests_get (stub_env online busy) k' url)
   \<and> (\<forall>k k' prompt. generate_content (stub_env online busy) k prompt
                 = generate_content (stub_env online busy) k' prompt)
   \<and> snd (check_single_drug (stub_env online busy)
            (JObj [(''profile'', profile1), (''drugName'', JStr ''lisinopril'')]) w0)
       = \<lparr>calls = 4, slept = [1, 2, 4]\<rparr>
   \<and> fst (check_single_drug (stub_env online busy)
            (JObj [(''profile'', profile1), (''drugName'', JStr ''lisinopril'')])
            \<lparr>calls = 4, slept = [1, 2, 4]\<rparr>)
       = fst (check_single_drug (stub_env online busy)
            (JObj [(''profile'', profile1), (''drugName'', JStr ''lisinopril'')]) w0)"
proof -
  let ?e = "stub_env online busy"
  let ?data = "JObj [(''profile'', profile1), (''drugName'', JStr ''lisinopril'')]"
  have h1: "\<forall>k k' url. requests_get ?e k url = requests_get ?e k' url"
    by (simp add: stub_env_def online_def)
  have h2: "\<forall>k k' prompt. generate_content ?e k prompt = generate_content ?e k' prompt"
    by (simp add: stub_env_def busy_def)
  have after: "snd (check_single_drug ?e ?data w0) = \<lparr>calls = 4, slept = [1, 2, 4]\<rparr>"
    by code_simp
  from check_single_drug_deterministic [OF h1 h2, of ?data w0 w0, THEN conjunct2]
  have "fst (check_single_drug ?e ?data \<lparr>calls = 4, slept = [1, 2, 4]\<rparr>)
       = fst (check_single_drug ?e ?data w0)"
    by (simp only: after)
  with h1 h2 after show ?thesis by (intro conjI)
qed

end
